theory Spec2Isabelle
  imports Main "HOL-Library.Word"
begin

section \<open>simpleperf report-sample: data model\<close>

text \<open>
  A shallow embedding of \<^verbatim>\<open>simpleperf/cmd_report_sample.cpp\<close>. Every definition below
  names the C++ function or member it embeds. Types and helpers that the file only uses
  (\<^verbatim>\<open>Dso\<close>, \<^verbatim>\<open>Symbol\<close>, \<^verbatim>\<open>ThreadTree\<close>, \<^verbatim>\<open>SampleRecord\<close>, the generated protobuf
  messages) are declared in headers outside the file; they appear here with exactly the members the
  file reads. C++ members named \<^verbatim>\<open>x_\<close> are written \<open>x\<close>.
\<close>

type_synonym u16 = "16 word"
type_synonym u32 = "32 word"
type_synonym i32 = "32 word" \<comment> \<open>\<^verbatim>\<open>int32_t\<close>: read with \<open>sint\<close>, compared with \<open><s\<close>\<close>
type_synonym u64 = "64 word"
type_synonym size_t = "64 word"

datatype DsoType = DSO_KERNEL | DSO_KERNEL_MODULE | DSO_ELF_FILE | DSO_DEX_FILE

record Dso =
  Path :: string
  FileName :: string
  dso_type :: DsoType \<comment> \<open>\<^verbatim>\<open>Dso::type()\<close>\<close>

text \<open>
  A \<^verbatim>\<open>const Symbol*\<close> is modelled by the symbol it points to, so two pointers are equal in
  the model when the symbols agree in name, demangled name and address. The unknown symbol of
  a thread tree is taken to differ in these from every symbol of a file.
\<close>

record Symbol =
  Name :: string
  DemangledName :: string
  addr :: u64

text \<open>\<^verbatim>\<open>struct CallEntry { Dso* dso; const Symbol* symbol; uint64_t vaddr_in_file; }\<close>\<close>

record CallEntry =
  dso :: Dso
  symbol :: Symbol
  vaddr_in_file :: u64

record MapEntry =
  map_dso :: Dso \<comment> \<open>\<^verbatim>\<open>map->dso\<close>\<close>

record ThreadEntry =
  pid :: u32
  tid :: u32
  comm :: string

text \<open>
  The symbol-resolution collaborator \<^verbatim>\<open>thread_tree_\<close>. Its implementation is outside the
  file, so its lookups are parameters of the model.
\<close>

record ThreadTree =
  FindThreadOrNew :: "u32 \<Rightarrow> u32 \<Rightarrow> ThreadEntry"
  FindMap :: "ThreadEntry \<Rightarrow> u64 \<Rightarrow> bool \<Rightarrow> MapEntry"
  IsUnknownDso :: "Dso \<Rightarrow> bool"
  FindSymbol :: "MapEntry \<Rightarrow> u64 \<Rightarrow> Symbol \<times> u64 \<times> Dso"
    \<comment> \<open>returns the symbol and fills \<^verbatim>\<open>vaddr_in_file\<close> and \<^verbatim>\<open>dso\<close>\<close>
  UnknownSymbol :: Symbol

text \<open>
  A \<^verbatim>\<open>SampleRecord\<close> as the file reads it: the thread ids, time and period, the result of
  \<^verbatim>\<open>r.GetCallChain(&kernel_ip_count)\<close> (the instruction pointers and how many leading ones
  are kernel context), and the result of \<^verbatim>\<open>record_file_reader_->GetAttrIndexOfRecord(&r)\<close>.
\<close>

record SampleRecord =
  tid_data_pid :: u32
  tid_data_tid :: u32
  time_data_time :: u64
  period_data_period :: u64
  GetCallChain :: "u64 list \<times> nat"
  GetAttrIndexOfRecord :: nat

subsection \<open>The generated protobuf messages (\<^verbatim>\<open>report_sample.proto\<close>)\<close>

record Sample_CallChainEntry =
  cc_vaddr_in_file :: u64
  file_id :: u32
  symbol_id :: i32

record Sample =
  time :: u64
  event_count :: u64
  thread_id :: i32
  event_type_id :: u32
  callchain :: "Sample_CallChainEntry list"

record LostSituation =
  lost_sample_count :: u64
  lost_lost_count :: u64

record File =
  file_ident :: u32 \<comment> \<open>\<^verbatim>\<open>file.id()\<close>\<close>
  file_path :: string
  file_symbol :: "string list"
  file_mangled_symbol :: "string list"

record Thread =
  thread_thread_id :: u32
  thread_process_id :: u32
  thread_name :: string

record MetaInfo =
  event_type :: "string list"
  app_package_name :: "string option" \<comment> \<open>\<open>None\<close> when \<^verbatim>\<open>has_app_package_name()\<close> is false\<close>

text \<open>
  \<^verbatim>\<open>proto::Record\<close> holds at most one of the five messages; the constructors are named after
  the \<^verbatim>\<open>has_...()\<close> tests the code dispatches on.
\<close>

datatype Record =
    has_sample Sample
  | has_lost LostSituation
  | has_file File
  | has_thread Thread
  | has_meta_info MetaInfo
  | RECORD_DATA_NOT_SET

subsection \<open>Output streams\<close>

text \<open>
  \<^verbatim>\<open>report_fp_\<close> in text mode is the sequence of \<^verbatim>\<open>FprintIndented(fp, indent, fmt, ...)\<close>
  calls made on it: the indentation level and the text \<^verbatim>\<open>printf\<close> formats.
  \<open>render\<close> gives the bytes, for any string \<open>unit\<close> that one level of indentation writes.
\<close>

type_synonym report = "(nat \<times> string) list"

definition FprintIndented :: "report \<Rightarrow> nat \<Rightarrow> string \<Rightarrow> report" where
  "FprintIndented fp indent s = fp @ [(indent, s)]"

definition render :: "string \<Rightarrow> report \<Rightarrow> string" where
  "render unit fp = concat (map (\<lambda>(indent, s). concat (replicate indent unit) @ s) fp)"

text \<open>\<^verbatim>\<open>printf\<close> conversions: \<open>%u\<close>, \<open>%zu\<close>, \<open>PRIu64\<close> (decimal), \<open>PRIx64\<close> (hex), \<open>%d\<close>.\<close>

definition digit :: "nat \<Rightarrow> char" where
  "digit d = ''0123456789abcdef'' ! d"

function to_base :: "nat \<Rightarrow> nat \<Rightarrow> string" where
  "to_base b n = (if b < 2 \<or> n < b then [digit n] else to_base b (n div b) @ [digit (n mod b)])"
  by pat_completeness auto
termination
  by (relation "measure snd") auto

definition fmt_u :: "'a::len word \<Rightarrow> string" where
  "fmt_u w = to_base 10 (unat w)"

definition fmt_x :: "'a::len word \<Rightarrow> string" where
  "fmt_x w = to_base 16 (unat w)"

definition fmt_d :: "'a::len word \<Rightarrow> string" where
  "fmt_d w = (if sint w < 0 then ''-'' @ to_base 10 (nat (- sint w)) else to_base 10 (nat (sint w)))"

text \<open>
  The \<^verbatim>\<open>CodedOutputStream\<close> in protobuf mode is the sequence of writes made on it: a
  little-endian length, or a serialized message.
\<close>

datatype wire = WriteLittleEndian32 u32 | Serialized Record

subsection \<open>Dump ids\<close>

text \<open>
  Modelled from the spec: the dump-id allocator \<^verbatim>\<open>Dso::GetDumpId\<close>,
  \<^verbatim>\<open>Dso::CreateDumpId\<close>, \<^verbatim>\<open>Symbol::GetDumpId\<close> and \<^verbatim>\<open>Dso::CreateSymbolDumpId\<close>
  (declared in \<^verbatim>\<open>dso.h\<close>, which is not part of the file). The spec's ReferenceTable:
  \<open>fileIdFor(path)\<close> "returns the existing FileId for path, or allocates the next sequential
  FileId and records the mapping"; \<open>symbolIdFor(file, symbol)\<close> has the "same contract, scoped
  per file"; ids are "dense and gap-free starting at 0 within each namespace (global for files,
  per-file for symbols)".
\<close>

record ReferenceTable =
  file_ids :: "(string \<times> u32) list"
  symbol_ids :: "((string \<times> Symbol) \<times> u32) list"

definition GetDumpId :: "ReferenceTable \<Rightarrow> Dso \<Rightarrow> u32 option" where
  "GetDumpId t d = map_of (file_ids t) (Path d)"

definition CreateDumpId :: "ReferenceTable \<Rightarrow> Dso \<Rightarrow> u32 \<times> ReferenceTable" where
  "CreateDumpId t d =
     (let i = of_nat (length (file_ids t))
      in (i, t\<lparr>file_ids := file_ids t @ [(Path d, i)]\<rparr>))"

definition GetSymbolDumpId :: "ReferenceTable \<Rightarrow> Dso \<Rightarrow> Symbol \<Rightarrow> u32 option" where
  "GetSymbolDumpId t d s = map_of (symbol_ids t) (Path d, s)"

definition CreateSymbolDumpId :: "ReferenceTable \<Rightarrow> Dso \<Rightarrow> Symbol \<Rightarrow> u32 \<times> ReferenceTable" where
  "CreateSymbolDumpId t d s =
     (let i = of_nat (length (filter (\<lambda>((p, _), _). p = Path d) (symbol_ids t)))
      in (i, t\<lparr>symbol_ids := symbol_ids t @ [((Path d, s), i)]\<rparr>))"

subsection \<open>The command object\<close>

text \<open>
  The members of \<^verbatim>\<open>class ReportSampleCommand\<close> that the modelled functions read or write.
  \<open>SerializeToCodedStream\<close> stands for the protobuf library's serializer and its
  \<open>ByteSize\<close>.
\<close>

record ReportSampleCommand =
  show_callchain :: bool
  use_protobuf :: bool
  remove_unknown_kernel_symbols :: bool
  kernel_symbols_available :: bool
  show_art_frames :: bool
  event_types :: "string list"
  thread_tree :: ThreadTree
  sample_count :: size_t
  lost_count :: size_t
  report_fp :: report
  coded_os :: "wire list"
  dump_ids :: ReferenceTable
  ByteSize :: "Record \<Rightarrow> u32"
  SerializeToCodedStream :: "Record \<Rightarrow> bool"

datatype outcome = Returned bool | CHECK_failed

section \<open>Resolving a call chain\<close>

text \<open>\<^verbatim>\<open>android::base::EndsWith(s, suffix)\<close>\<close>

definition EndsWith :: "string \<Rightarrow> string \<Rightarrow> bool" where
  "EndsWith s suffix =
     (length suffix \<le> length s \<and> drop (length s - length suffix) s = suffix)"

text \<open>The lambda \<^verbatim>\<open>is_entry_for_interpreter\<close> of \<^verbatim>\<open>ProcessSampleRecord\<close>.\<close>

definition is_entry_for_interpreter :: "CallEntry \<Rightarrow> bool" where
  "is_entry_for_interpreter entry = EndsWith (Path (dso entry)) ''/libart.so''"

text \<open>\<^verbatim>\<open>ReportSampleCommand::GetCallEntry\<close>: \<open>None\<close> is \<^verbatim>\<open>return false\<close>.\<close>

definition GetCallEntry ::
  "ThreadTree \<Rightarrow> ThreadEntry \<Rightarrow> bool \<Rightarrow> u64 \<Rightarrow> bool \<Rightarrow> CallEntry option" where
  "GetCallEntry tt thread in_kernel ip omit_unknown_dso =
     (let m = FindMap tt thread ip in_kernel
      in if omit_unknown_dso \<and> IsUnknownDso tt (map_dso m) then None
         else (case FindSymbol tt m ip of (found, vaddr, d) \<Rightarrow>
                 Some \<lparr>dso = (if found = UnknownSymbol tt then map_dso m else d),
                       symbol = found, vaddr_in_file = vaddr\<rparr>))"

text \<open>
  \<^verbatim>\<open>while (!entries.empty() && is_entry_for_interpreter(entries.back())) entries.pop_back();\<close>
\<close>

function pop_interpreter_frames :: "CallEntry list \<Rightarrow> CallEntry list" where
  "pop_interpreter_frames entries =
     (if entries \<noteq> [] \<and> is_entry_for_interpreter (last entries)
      then pop_interpreter_frames (butlast entries) else entries)"
  by pat_completeness auto
termination
  by (relation "measure length") auto

declare pop_interpreter_frames.simps [simp del]

text \<open>
  The body of the \<^verbatim>\<open>for\<close> loop of \<^verbatim>\<open>ProcessSampleRecord\<close> after \<^verbatim>\<open>GetCallEntry\<close> has
  succeeded: from \<^verbatim>\<open>entries\<close> and \<^verbatim>\<open>near_java_method\<close> before the iteration to their values
  after it.
\<close>

definition push_entry :: "bool \<Rightarrow> CallEntry list \<times> bool \<Rightarrow> CallEntry \<Rightarrow> CallEntry list \<times> bool" where
  "push_entry show_art = (\<lambda>(entries, near_java_method) entry.
     if \<not> show_art then
       if dso_type (dso entry) = DSO_DEX_FILE then
         (pop_interpreter_frames entries @ [entry], True)
       else if is_entry_for_interpreter entry then
         if near_java_method then (entries, near_java_method)
         else (entries @ [entry], near_java_method)
       else (entries @ [entry], False)
     else (entries @ [entry], near_java_method))"

text \<open>
  The \<^verbatim>\<open>for (size_t i = 0; i < ips.size(); ++i)\<close> loop, entered at index \<open>i\<close> with the
  pointers \<^verbatim>\<open>ips[i..]\<close> still to visit; \<^verbatim>\<open>break\<close> returns the entries collected so far.
\<close>

fun callchain_loop ::
  "ReportSampleCommand \<Rightarrow> ThreadEntry \<Rightarrow> nat \<Rightarrow> nat \<Rightarrow> u64 list \<Rightarrow> CallEntry list \<times> bool
     \<Rightarrow> CallEntry list" where
  "callchain_loop c thread kernel_ip_count i [] acc = fst acc"
| "callchain_loop c thread kernel_ip_count i (ip # ips) acc =
     (let omit_unknown_dso = i > 0
      in case GetCallEntry (thread_tree c) thread (i < kernel_ip_count) ip omit_unknown_dso of
           None \<Rightarrow> fst acc
         | Some entry \<Rightarrow>
             callchain_loop c thread kernel_ip_count (i + 1) ips
               (push_entry (show_art_frames c) acc entry))"

section \<open>Emitting a sample\<close>

text \<open>\<^verbatim>\<open>ReportSampleCommand::WriteRecordInProtobuf\<close>\<close>

definition WriteRecordInProtobuf :: "ReportSampleCommand \<Rightarrow> Record \<Rightarrow> bool \<times> ReportSampleCommand" where
  "WriteRecordInProtobuf c proto_record =
     (let c = c\<lparr>coded_os := coded_os c @ [WriteLittleEndian32 (ByteSize c proto_record)]\<rparr>
      in if \<not> SerializeToCodedStream c proto_record then (False, c)
         else (True, c\<lparr>coded_os := coded_os c @ [Serialized proto_record]\<rparr>))"

text \<open>
  The \<^verbatim>\<open>for (const CallEntry& node : entries)\<close> loop of
  \<^verbatim>\<open>PrintSampleRecordInProtobuf\<close>: the call chain entries added to the sample so far and the
  dump ids travel through it; \<^verbatim>\<open>break\<close> leaves the remaining nodes unvisited.
\<close>

definition is_thread_start :: "CallEntry \<Rightarrow> bool" where
  "is_thread_start node =
     (FileName (dso node) = ''libc.so'' \<and>
      (Name (symbol node) = ''__libc_init'' \<or> Name (symbol node) = ''__start_thread''))"

fun add_callchain ::
  "ThreadTree \<Rightarrow> CallEntry list \<Rightarrow> Sample_CallChainEntry list \<times> ReferenceTable
     \<Rightarrow> Sample_CallChainEntry list \<times> ReferenceTable" where
  "add_callchain tt [] acc = acc"
| "add_callchain tt (node # entries) (chain, t) =
     (case (case GetDumpId t (dso node) of
              Some i \<Rightarrow> (i, t)
            | None \<Rightarrow> CreateDumpId t (dso node)) of (fid, t) \<Rightarrow>
      case (if symbol node \<noteq> UnknownSymbol tt then
              (case GetSymbolDumpId t (dso node) (symbol node) of
                 Some i \<Rightarrow> (i, t)
               | None \<Rightarrow> CreateSymbolDumpId t (dso node) (symbol node))
            else (- 1, t)) of (sid, t) \<Rightarrow>
      let chain = chain @ [\<lparr>cc_vaddr_in_file = vaddr_in_file node,
                             file_id = fid, symbol_id = sid\<rparr>]
      in if is_thread_start node then (chain, t)
         else add_callchain tt entries (chain, t))"

text \<open>\<^verbatim>\<open>ReportSampleCommand::PrintSampleRecordInProtobuf\<close>\<close>

definition PrintSampleRecordInProtobuf ::
  "ReportSampleCommand \<Rightarrow> SampleRecord \<Rightarrow> CallEntry list \<Rightarrow> bool \<times> ReportSampleCommand" where
  "PrintSampleRecordInProtobuf c r entries =
     (case add_callchain (thread_tree c) entries ([], dump_ids c) of (chain, t) \<Rightarrow>
        WriteRecordInProtobuf (c\<lparr>dump_ids := t\<rparr>)
          (has_sample \<lparr>time = time_data_time r,
                       event_count = period_data_period r,
                       thread_id = tid_data_tid r,
                       event_type_id = of_nat (GetAttrIndexOfRecord r),
                       callchain = chain\<rparr>))"

text \<open>
  \<^verbatim>\<open>ReportSampleCommand::PrintSampleRecord\<close>. \<^verbatim>\<open>CHECK(!entries.empty())\<close> aborts the
  process after the first six lines have been printed. The index of \<^verbatim>\<open>event_types_\<close> comes
  from the record reader, which numbers the same attributes that filled \<^verbatim>\<open>event_types_\<close>.
\<close>

fun print_callchain :: "report \<Rightarrow> CallEntry list \<Rightarrow> report" where
  "print_callchain fp [] = fp"
| "print_callchain fp (e # entries) =
     (let fp = FprintIndented fp 2 (''vaddr_in_file: '' @ fmt_x (vaddr_in_file e) @ ''\<newline>'');
          fp = FprintIndented fp 2 (''file: '' @ Path (dso e) @ ''\<newline>'');
          fp = FprintIndented fp 2 (''symbol: '' @ DemangledName (symbol e) @ ''\<newline>'')
      in print_callchain fp entries)"

definition PrintSampleRecord ::
  "ReportSampleCommand \<Rightarrow> SampleRecord \<Rightarrow> CallEntry list \<Rightarrow> outcome \<times> ReportSampleCommand" where
  "PrintSampleRecord c r entries =
     (let fp = FprintIndented (report_fp c) 0 ''sample:\<newline>'';
          fp = FprintIndented fp 1
                 (''event_type: '' @ event_types c ! GetAttrIndexOfRecord r @ ''\<newline>'');
          fp = FprintIndented fp 1 (''time: '' @ fmt_u (time_data_time r) @ ''\<newline>'');
          fp = FprintIndented fp 1 (''event_count: '' @ fmt_u (period_data_period r) @ ''\<newline>'');
          fp = FprintIndented fp 1 (''thread_id: '' @ fmt_d (tid_data_tid r) @ ''\<newline>'');
          name = comm (FindThreadOrNew (thread_tree c) (tid_data_pid r) (tid_data_tid r));
          fp = FprintIndented fp 1 (''thread_name: '' @ name @ ''\<newline>'')
      in case entries of
           [] \<Rightarrow> (CHECK_failed, c\<lparr>report_fp := fp\<rparr>)
         | e0 # callers \<Rightarrow>
             (let fp = FprintIndented fp 1
                         (''vaddr_in_file: '' @ fmt_x (vaddr_in_file e0) @ ''\<newline>'');
                  fp = FprintIndented fp 1 (''file: '' @ Path (dso e0) @ ''\<newline>'');
                  fp = FprintIndented fp 1
                         (''symbol: '' @ DemangledName (symbol e0) @ ''\<newline>'');
                  fp = (if length entries > 1
                        then print_callchain (FprintIndented fp 1 ''callchain:\<newline>'') callers
                        else fp)
              in (Returned True, c\<lparr>report_fp := fp\<rparr>)))"

section \<open>Processing a sample\<close>

text \<open>
  The first statement of \<^verbatim>\<open>ProcessSampleRecord\<close>: the chain and the kernel count after
  the removal of unknown kernel frames. \<^verbatim>\<open>GetCallChain\<close> returns
  \<^verbatim>\<open>kernel_ip_count <= ips.size()\<close>, which \<^verbatim>\<open>erase\<close> relies on.
\<close>

definition remove_kernel_ips :: "ReportSampleCommand \<Rightarrow> u64 list \<times> nat \<Rightarrow> u64 list \<times> nat" where
  "remove_kernel_ips c = (\<lambda>(ips, kernel_ip_count).
     if kernel_ip_count > 0 \<and> remove_unknown_kernel_symbols c \<and> \<not> kernel_symbols_available c
     then (drop kernel_ip_count ips, 0)
     else (ips, kernel_ip_count))"

text \<open>
  The entries that the \<^verbatim>\<open>for\<close> loop of \<^verbatim>\<open>ProcessSampleRecord\<close> leaves in
  \<^verbatim>\<open>entries\<close>, started with \<^verbatim>\<open>entries\<close> empty and \<^verbatim>\<open>near_java_method = false\<close>.
\<close>

definition callchain_entries ::
  "ReportSampleCommand \<Rightarrow> ThreadEntry \<Rightarrow> nat \<Rightarrow> u64 list \<Rightarrow> CallEntry list" where
  "callchain_entries c thread kernel_ip_count ips =
     callchain_loop c thread kernel_ip_count 0 ips ([], False)"

text \<open>\<^verbatim>\<open>ReportSampleCommand::ProcessSampleRecord\<close>\<close>

definition ProcessSampleRecord ::
  "ReportSampleCommand \<Rightarrow> SampleRecord \<Rightarrow> outcome \<times> ReportSampleCommand" where
  "ProcessSampleRecord c r =
     (case remove_kernel_ips c (GetCallChain r) of (ips, kernel_ip_count) \<Rightarrow>
        if ips = [] then (Returned True, c)
        else
          (case (if \<not> show_callchain c then (take 1 ips, min kernel_ip_count 1)
                 else (ips, kernel_ip_count)) of (ips, kernel_ip_count) \<Rightarrow>
           let c = c\<lparr>sample_count := sample_count c + 1\<rparr>;
               thread = FindThreadOrNew (thread_tree c) (tid_data_pid r) (tid_data_tid r);
               entries = callchain_entries c thread kernel_ip_count ips
           in if use_protobuf c
              then (case PrintSampleRecordInProtobuf c r entries of
                      (ok, c) \<Rightarrow> (Returned ok, c))
              else PrintSampleRecord c r entries))"

text \<open>\<^verbatim>\<open>ReportSampleCommand::ProcessRecord\<close>, after \<^verbatim>\<open>thread_tree_.Update(*record)\<close>.\<close>

datatype perf_record = PERF_RECORD_SAMPLE SampleRecord | PERF_RECORD_LOST u64 | PERF_RECORD_OTHER

fun ProcessRecord :: "ReportSampleCommand \<Rightarrow> perf_record \<Rightarrow> outcome \<times> ReportSampleCommand" where
  "ProcessRecord c (PERF_RECORD_SAMPLE r) = ProcessSampleRecord c r"
| "ProcessRecord c (PERF_RECORD_LOST lost) = (Returned True, c\<lparr>lost_count := lost_count c + lost\<rparr>)"
| "ProcessRecord c PERF_RECORD_OTHER = (Returned True, c)"

section \<open>Dumping a protobuf report\<close>

text \<open>
  The report file as \<^verbatim>\<open>DumpProtobufReport\<close> reads it. \<open>magic\<close> is what
  \<^verbatim>\<open>fread(magic, 10, 1, fp)\<close> finds (fewer than 10 bytes when the file is shorter),
  \<open>version\<close> the 16-bit value of the next read (\<open>None\<close> when it fails), and \<open>frames\<close>
  what the coded stream gives afterwards: each frame is the length read by
  \<^verbatim>\<open>ReadLittleEndian32\<close> and what \<^verbatim>\<open>ParseFromCodedStream\<close> makes of the bytes under that
  limit (\<open>None\<close> when parsing fails). A read at the end of \<open>frames\<close> fails. Parsing itself
  belongs to the protobuf library.
\<close>

datatype frame = Frame u32 "Record option"

record report_file =
  magic :: string
  version :: "u16 option"
  frames :: "frame list"

text \<open>
  The locals of \<^verbatim>\<open>DumpProtobufReport\<close>, the text written to \<^verbatim>\<open>report_fp_\<close>, and the
  function's \<^verbatim>\<open>static size_t sample_count\<close>, which lives as long as the process.
\<close>

record dump_state =
  out :: report
  max_symbol_id_map :: "(u32 \<times> i32) list"
  files :: "u32 list"
  max_message_size :: u32
  static_sample_count :: size_t

text \<open>
  \<^verbatim>\<open>std::unordered_map<uint32_t, int32_t>\<close>: \<open>map_at\<close> is the value \<^verbatim>\<open>m[k]\<close> reads
  (a missing key is inserted with 0), \<open>map_assign\<close> is \<^verbatim>\<open>m[k] = v\<close>.
\<close>

definition map_at :: "(u32 \<times> i32) list \<Rightarrow> u32 \<Rightarrow> i32" where
  "map_at m k = (case map_of m k of None \<Rightarrow> 0 | Some v \<Rightarrow> v)"

fun map_assign :: "(u32 \<times> i32) list \<Rightarrow> u32 \<Rightarrow> i32 \<Rightarrow> (u32 \<times> i32) list" where
  "map_assign [] k v = [(k, v)]"
| "map_assign ((k', v') # m) k v = (if k' = k then (k, v) # m else (k', v') # map_assign m k v)"

text \<open>\<^verbatim>\<open>std::max\<close> on \<^verbatim>\<open>int32_t\<close>\<close>

definition std_max :: "i32 \<Rightarrow> i32 \<Rightarrow> i32" where
  "std_max a b = (if a <s b then b else a)"

text \<open>\<^verbatim>\<open>s.c_str()\<close> printed with \<open>%s\<close>: the bytes before the first NUL.\<close>

definition c_str :: "string \<Rightarrow> string" where
  "c_str s = takeWhile (\<lambda>ch. ch \<noteq> CHR 0x00) s"

text \<open>The \<^verbatim>\<open>for\<close> loops that print one line for each string of a repeated field.\<close>

fun print_strings :: "report \<Rightarrow> nat \<Rightarrow> string \<Rightarrow> string list \<Rightarrow> report" where
  "print_strings fp indent label [] = fp"
| "print_strings fp indent label (x # xs) =
     print_strings (FprintIndented fp indent (label @ c_str x @ ''\<newline>'')) indent label xs"

text \<open>
  The loop over \<^verbatim>\<open>sample.callchain(i)\<close>; \<open>False\<close> is the \<^verbatim>\<open>return false\<close> on a
  symbol id below -1.
\<close>

fun dump_callchain :: "dump_state \<Rightarrow> Sample_CallChainEntry list \<Rightarrow> bool \<times> dump_state" where
  "dump_callchain st [] = (True, st)"
| "dump_callchain st (cc # rest) =
     (let fp = FprintIndented (out st) 2
                 (''vaddr_in_file: '' @ fmt_x (cc_vaddr_in_file cc) @ ''\<newline>'');
          fp = FprintIndented fp 2 (''file_id: '' @ fmt_u (file_id cc) @ ''\<newline>'');
          sid = symbol_id cc;
          fp = FprintIndented fp 2 (''symbol_id: '' @ fmt_d sid @ ''\<newline>'');
          st = st\<lparr>out := fp\<rparr>
      in if sid <s - 1 then (False, st)
         else dump_callchain
                (if sid \<noteq> - 1
                 then st\<lparr>max_symbol_id_map :=
                          map_assign (max_symbol_id_map st) (file_id cc)
                            (std_max (map_at (max_symbol_id_map st) (file_id cc)) sid)\<rparr>
                 else st)
                rest)"

text \<open>The \<^verbatim>\<open>if (proto_record.has_sample()) ... else\<close> chain of the loop body.\<close>

fun dump_record :: "dump_state \<Rightarrow> Record \<Rightarrow> bool \<times> dump_state" where
  "dump_record st (has_sample sample) =
     (let st = st\<lparr>static_sample_count := static_sample_count st + 1\<rparr>;
          fp = FprintIndented (out st) 0
                 (''sample '' @ fmt_u (static_sample_count st) @ '':\<newline>'');
          fp = FprintIndented fp 1 (''event_type_id: '' @ fmt_u (event_type_id sample) @ ''\<newline>'');
          fp = FprintIndented fp 1 (''time: '' @ fmt_u (time sample) @ ''\<newline>'');
          fp = FprintIndented fp 1 (''event_count: '' @ fmt_u (event_count sample) @ ''\<newline>'');
          fp = FprintIndented fp 1 (''thread_id: '' @ fmt_d (thread_id sample) @ ''\<newline>'');
          fp = FprintIndented fp 1 ''callchain:\<newline>''
      in dump_callchain (st\<lparr>out := fp\<rparr>) (callchain sample))"
| "dump_record st (has_lost lost) =
     (let fp = FprintIndented (out st) 0 ''lost_situation:\<newline>'';
          fp = FprintIndented fp 1 (''sample_count: '' @ fmt_u (lost_sample_count lost) @ ''\<newline>'');
          fp = FprintIndented fp 1 (''lost_count: '' @ fmt_u (lost_lost_count lost) @ ''\<newline>'')
      in (True, st\<lparr>out := fp\<rparr>))"
| "dump_record st (has_file file) =
     (let fp = FprintIndented (out st) 0 ''file:\<newline>'';
          fp = FprintIndented fp 1 (''id: '' @ fmt_u (file_ident file) @ ''\<newline>'');
          fp = FprintIndented fp 1 (''path: '' @ c_str (file_path file) @ ''\<newline>'');
          fp = print_strings fp 1 ''symbol: '' (file_symbol file);
          fp = print_strings fp 1 ''mangled_symbol: '' (file_mangled_symbol file);
          st = st\<lparr>out := fp\<rparr>
      in if unat (file_ident file) \<noteq> length (files st) then (False, st)
         else (True, st\<lparr>files := files st @ [of_nat (length (file_symbol file))]\<rparr>))"
| "dump_record st (has_thread thread) =
     (let fp = FprintIndented (out st) 0 ''thread:\<newline>'';
          fp = FprintIndented fp 1 (''thread_id: '' @ fmt_u (thread_thread_id thread) @ ''\<newline>'');
          fp = FprintIndented fp 1 (''process_id: '' @ fmt_u (thread_process_id thread) @ ''\<newline>'');
          fp = FprintIndented fp 1 (''thread_name: '' @ c_str (thread_name thread) @ ''\<newline>'')
      in (True, st\<lparr>out := fp\<rparr>))"
| "dump_record st (has_meta_info meta_info) =
     (let fp = FprintIndented (out st) 0 ''meta_info:\<newline>'';
          fp = print_strings fp 1 ''event_type: '' (event_type meta_info);
          fp = (case app_package_name meta_info of
                  None \<Rightarrow> fp
                | Some name \<Rightarrow> FprintIndented fp 0 (''app_package_name: '' @ c_str name @ ''\<newline>''))
      in (True, st\<lparr>out := fp\<rparr>))"
| "dump_record st RECORD_DATA_NOT_SET = (False, st)"

text \<open>
  The \<^verbatim>\<open>while (true)\<close> loop: \<open>True\<close> is the \<^verbatim>\<open>break\<close> at a zero length, \<open>False\<close> a
  \<^verbatim>\<open>return false\<close>.
\<close>

fun dump_frames :: "dump_state \<Rightarrow> frame list \<Rightarrow> bool \<times> dump_state" where
  "dump_frames st [] = (False, st)"
| "dump_frames st (Frame sz body # rest) =
     (if sz = 0 then (True, st)
      else
        (let st = (if sz > max_message_size st then st\<lparr>max_message_size := sz\<rparr> else st)
         in case body of
              None \<Rightarrow> (False, st)
            | Some proto_record \<Rightarrow>
                (case dump_record st proto_record of
                   (False, st) \<Rightarrow> (False, st)
                 | (True, st) \<Rightarrow> dump_frames st rest)))"

text \<open>
  The final \<^verbatim>\<open>for (auto pair : max_symbol_id_map)\<close> loop. The iteration order of the
  unordered map only selects which violation is logged.
\<close>

fun check_max_symbol_ids :: "u32 list \<Rightarrow> (u32 \<times> i32) list \<Rightarrow> bool" where
  "check_max_symbol_ids fs [] = True"
| "check_max_symbol_ids fs ((first, second) # m) =
     (if unat first \<ge> length fs then False
      else if second \<ge> fs ! unat first then False
      else check_max_symbol_ids fs m)"

definition PROT_FILE_MAGIC :: string where
  "PROT_FILE_MAGIC = ''SIMPLEPERF''"

definition PROT_FILE_VERSION :: u16 where
  "PROT_FILE_VERSION = 1"

text \<open>
  \<^verbatim>\<open>ReportSampleCommand::DumpProtobufReport\<close>. It receives the value the static counter has
  when it is called (0 in a fresh process) and the text already in \<^verbatim>\<open>report_fp_\<close>; a file
  that cannot be opened is \<open>None\<close>. It returns the \<^verbatim>\<open>bool\<close> and the state it leaves.
\<close>

definition DumpProtobufReport ::
  "size_t \<Rightarrow> report \<Rightarrow> report_file option \<Rightarrow> bool \<times> dump_state" where
  "DumpProtobufReport static_count fp file =
     (let st = \<lparr>out = fp, max_symbol_id_map = [], files = [],
                 max_message_size = 64 * 2 ^ 20, static_sample_count = static_count\<rparr>
      in case file of
           None \<Rightarrow> (False, st)
         | Some f \<Rightarrow>
             if length (magic f) \<noteq> 10 \<or> magic f \<noteq> PROT_FILE_MAGIC then (False, st)
             else
               (let st = st\<lparr>out := FprintIndented (out st) 0
                                      (''magic: '' @ magic f @ ''\<newline>'')\<rparr>
                in case version f of
                     None \<Rightarrow> (False, st)
                   | Some v \<Rightarrow>
                       if v \<noteq> PROT_FILE_VERSION then (False, st)
                       else
                         (let st = st\<lparr>out := FprintIndented (out st) 0
                                                (''version: '' @ fmt_u v @ ''\<newline>'')\<rparr>
                          in case dump_frames st (frames f) of
                               (False, st) \<Rightarrow> (False, st)
                             | (True, st) \<Rightarrow>
                                 (check_max_symbol_ids (files st) (max_symbol_id_map st), st))))"

section \<open>Notions used to state the properties\<close>

text \<open>
  The frames that the loop of \<^verbatim>\<open>ProcessSampleRecord\<close> obtains from \<^verbatim>\<open>GetCallEntry\<close>,
  in order, up to the first pointer for which it returns false: the input of the interpreter
  collapsing.
\<close>

fun resolved_frames :: "ThreadTree \<Rightarrow> ThreadEntry \<Rightarrow> nat \<Rightarrow> nat \<Rightarrow> u64 list \<Rightarrow> CallEntry list" where
  "resolved_frames tt thread kernel_ip_count i [] = []"
| "resolved_frames tt thread kernel_ip_count i (ip # ips) =
     (case GetCallEntry tt thread (i < kernel_ip_count) ip (i > 0) of
        None \<Rightarrow> []
      | Some entry \<Rightarrow> entry # resolved_frames tt thread kernel_ip_count (i + 1) ips)"

text \<open>
  The collapsing as the specification words it, a state machine over the frames with the
  output so far and the flag "near interpreted code": a frame of the interpreted-code kind
  discards the interpreter frames at the end of the output, is appended and raises the flag;
  an interpreter frame is skipped while the flag is set and appended otherwise; any other
  frame is appended and clears the flag.
\<close>

definition is_interpreted_code :: "CallEntry \<Rightarrow> bool" where
  "is_interpreted_code f = (dso_type (dso f) = DSO_DEX_FILE)"

definition drop_trailing_interpreter :: "CallEntry list \<Rightarrow> CallEntry list" where
  "drop_trailing_interpreter output = rev (dropWhile is_entry_for_interpreter (rev output))"

fun elide_interpreter_frames :: "CallEntry list \<Rightarrow> bool \<Rightarrow> CallEntry list \<Rightarrow> CallEntry list" where
  "elide_interpreter_frames output near [] = output"
| "elide_interpreter_frames output near (f # fs) =
     (if is_interpreted_code f
      then elide_interpreter_frames (drop_trailing_interpreter output @ [f]) True fs
      else if is_entry_for_interpreter f
      then (if near then elide_interpreter_frames output near fs
            else elide_interpreter_frames (output @ [f]) near fs)
      else elide_interpreter_frames (output @ [f]) False fs)"

text \<open>An entry list up to and including its first thread-start entry.\<close>

fun upto_thread_start :: "CallEntry list \<Rightarrow> CallEntry list" where
  "upto_thread_start [] = []"
| "upto_thread_start (e # es) = (if is_thread_start e then [e] else e # upto_thread_start es)"

text \<open>The lines \<^verbatim>\<open>PrintSampleRecord\<close> prints for one caller in the call chain.\<close>

definition caller_lines :: "CallEntry \<Rightarrow> report" where
  "caller_lines e =
     [(2, ''vaddr_in_file: '' @ fmt_x (vaddr_in_file e) @ ''\<newline>''),
      (2, ''file: '' @ Path (dso e) @ ''\<newline>''),
      (2, ''symbol: '' @ DemangledName (symbol e) @ ''\<newline>'')]"

text \<open>
  The records a dump reads from the frames: those before the first zero length, parse
  failure or end of input.
\<close>

fun records_read :: "frame list \<Rightarrow> Record list" where
  "records_read [] = []"
| "records_read (Frame sz body # rest) =
     (if sz = 0 then []
      else case body of None \<Rightarrow> [] | Some proto_record \<Rightarrow> proto_record # records_read rest)"

fun file_records :: "Record list \<Rightarrow> File list" where
  "file_records [] = []"
| "file_records (has_file file # rs) = file # file_records rs"
| "file_records (r # rs) = file_records rs"

fun referenced :: "Record list \<Rightarrow> Sample_CallChainEntry list" where
  "referenced [] = []"
| "referenced (has_sample sample # rs) = callchain sample @ referenced rs"
| "referenced (r # rs) = referenced rs"

text \<open>Replacing, by \<open>g\<close>, the file id of every call chain entry whose symbol id is -1.\<close>

definition retarget_entry :: "(u32 \<Rightarrow> u32) \<Rightarrow> Sample_CallChainEntry \<Rightarrow> Sample_CallChainEntry" where
  "retarget_entry g cc = (if symbol_id cc = - 1 then cc\<lparr>file_id := g (file_id cc)\<rparr> else cc)"

fun retarget_record :: "(u32 \<Rightarrow> u32) \<Rightarrow> Record \<Rightarrow> Record" where
  "retarget_record g (has_sample sample) =
     has_sample (sample\<lparr>callchain := map (retarget_entry g) (callchain sample)\<rparr>)"
| "retarget_record g r = r"

fun retarget_frame :: "(u32 \<Rightarrow> u32) \<Rightarrow> frame \<Rightarrow> frame" where
  "retarget_frame g (Frame sz body) = Frame sz (map_option (retarget_record g) body)"

section \<open>A small profile used as the concrete input\<close>

definition libart_so :: Dso where
  "libart_so = \<lparr>Path = ''/system/lib64/libart.so'', FileName = ''libart.so'', dso_type = DSO_ELF_FILE\<rparr>"

definition base_vdex :: Dso where
  "base_vdex = \<lparr>Path = ''/data/app/base.vdex'', FileName = ''base.vdex'', dso_type = DSO_DEX_FILE\<rparr>"

definition libc_so :: Dso where
  "libc_so = \<lparr>Path = ''/system/lib64/libc.so'', FileName = ''libc.so'', dso_type = DSO_ELF_FILE\<rparr>"

definition app_process :: Dso where
  "app_process = \<lparr>Path = ''/system/bin/app_process64'', FileName = ''app_process64'', dso_type = DSO_ELF_FILE\<rparr>"

definition kernel_dso :: Dso where
  "kernel_dso = \<lparr>Path = ''[kernel.kallsyms]'', FileName = ''[kernel.kallsyms]'', dso_type = DSO_KERNEL\<rparr>"

definition unknown_dso :: Dso where
  "unknown_dso = \<lparr>Path = ''unknown'', FileName = ''unknown'', dso_type = DSO_ELF_FILE\<rparr>"

definition unknown_symbol :: Symbol where
  "unknown_symbol = \<lparr>Name = ''unknown'', DemangledName = ''unknown'', addr = 0\<rparr>"

definition symbol_named :: "string \<Rightarrow> u64 \<Rightarrow> Symbol" where
  "symbol_named n a = \<lparr>Name = n, DemangledName = n, addr = a\<rparr>"

text \<open>Instruction pointer, module and symbol of every mapped address of the profile.\<close>

definition profile :: "(u64 \<times> Dso \<times> Symbol) list" where
  "profile =
     [(0x11, libart_so, symbol_named ''ExecuteSwitchImpl'' 0x10),
      (0x12, libart_so, symbol_named ''ExecuteSwitchImpl'' 0x10),
      (0x13, libart_so, symbol_named ''ArtInterpreterToInterpreterBridge'' 0x13),
      (0x14, libart_so, symbol_named ''ArtInterpreterToInterpreterBridge'' 0x13),
      (0x21, base_vdex, symbol_named ''Main.run'' 0x20),
      (0x31, libc_so, symbol_named ''read'' 0x30),
      (0x32, libc_so, symbol_named ''__libc_init'' 0x32),
      (0x41, app_process, symbol_named ''_start_main'' 0x40),
      (0x81, kernel_dso, unknown_symbol),
      (0x82, kernel_dso, unknown_symbol)]"

definition profile_tree :: ThreadTree where
  "profile_tree =
     \<lparr>FindThreadOrNew = (\<lambda>p t. \<lparr>pid = p, tid = t, comm = ''main''\<rparr>),
      FindMap = (\<lambda>thread ip in_kernel.
         case map_of profile ip of
           Some (d, s) \<Rightarrow> \<lparr>map_dso = d\<rparr>
         | None \<Rightarrow> \<lparr>map_dso = unknown_dso\<rparr>),
      IsUnknownDso = (\<lambda>d. d = unknown_dso),
      FindSymbol = (\<lambda>m ip.
         case map_of profile ip of
           Some (d, s) \<Rightarrow> (s, ip, d)
         | None \<Rightarrow> (unknown_symbol, ip, map_dso m)),
      UnknownSymbol = unknown_symbol\<rparr>"

definition main_thread :: ThreadEntry where
  "main_thread = \<lparr>pid = 7, tid = 7, comm = ''main''\<rparr>"

text \<open>
  A command with \<^verbatim>\<open>--show-callchain\<close>, in text mode, before its first record; the other
  options are set where an example needs them.
\<close>

definition command0 :: ReportSampleCommand where
  "command0 =
     \<lparr>show_callchain = True, use_protobuf = False, remove_unknown_kernel_symbols = False,
      kernel_symbols_available = False, show_art_frames = False,
      event_types = [''cpu-cycles''], thread_tree = profile_tree,
      sample_count = 0, lost_count = 0, report_fp = [], coded_os = [],
      dump_ids = \<lparr>file_ids = [], symbol_ids = []\<rparr>,
      ByteSize = (\<lambda>r. 1), SerializeToCodedStream = (\<lambda>r. True)\<rparr>"

definition sample_of :: "u64 list \<Rightarrow> nat \<Rightarrow> SampleRecord" where
  "sample_of ips kernel_ip_count =
     \<lparr>tid_data_pid = 7, tid_data_tid = 7, time_data_time = 1000, period_data_period = 1,
      GetCallChain = (ips, kernel_ip_count), GetAttrIndexOfRecord = 0\<rparr>"

definition entry_at :: "u64 \<Rightarrow> Dso \<Rightarrow> Symbol \<Rightarrow> CallEntry" where
  "entry_at ip d s = \<lparr>dso = d, symbol = s, vaddr_in_file = ip\<rparr>"

subsection \<open>Notions for the dump\<close>

text \<open>The symbol count the dump stores for a file record: \<^verbatim>\<open>files.push_back(file.symbol_size())\<close>.\<close>

definition symbol_count :: "File \<Rightarrow> u32" where
  "symbol_count file = of_nat (length (file_symbol file))"

text \<open>
  A call chain entry is covered by the map of maximal symbol ids: it is unresolved, or the map
  holds for its file an id that is at least its own, which is not negative.
\<close>

definition recorded :: "(u32 \<times> i32) list \<Rightarrow> Sample_CallChainEntry \<Rightarrow> bool" where
  "recorded m e =
     (symbol_id e = - 1 \<or>
      (case map_of m (file_id e) of
         None \<Rightarrow> False
       | Some v \<Rightarrow> 0 \<le>s symbol_id e \<and> symbol_id e \<le>s v))"

text \<open>Every key of the first map is a key of the second, with a value at least as large.\<close>

definition map_grows :: "(u32 \<times> i32) list \<Rightarrow> (u32 \<times> i32) list \<Rightarrow> bool" where
  "map_grows m m' = (\<forall>k v. map_of m k = Some v \<longrightarrow> (\<exists>v'. map_of m' k = Some v' \<and> v \<le>s v'))"

text \<open>Two dump states that differ at most in the text printed.\<close>

definition agree :: "dump_state \<Rightarrow> dump_state \<Rightarrow> bool" where
  "agree st st' =
     (max_symbol_id_map st = max_symbol_id_map st' \<and> files st = files st' \<and>
      max_message_size st = max_message_size st' \<and>
      static_sample_count st = static_sample_count st')"

subsection \<open>Report files used as concrete inputs\<close>

text \<open>
  A report with the right magic and version and the given frames; frames holding a sample with
  a given call chain, a file record with a given id and symbols, and the terminating zero
  length.
\<close>

definition report_of :: "frame list \<Rightarrow> report_file" where
  "report_of fr = \<lparr>magic = ''SIMPLEPERF'', version = Some 1, frames = fr\<rparr>"

definition chain_entry :: "u32 \<Rightarrow> i32 \<Rightarrow> Sample_CallChainEntry" where
  "chain_entry f s = \<lparr>cc_vaddr_in_file = 0x31, file_id = f, symbol_id = s\<rparr>"

definition sample_frame :: "Sample_CallChainEntry list \<Rightarrow> frame" where
  "sample_frame es =
     Frame 20 (Some (has_sample \<lparr>time = 5, event_count = 1, thread_id = 7, event_type_id = 0,
                                  callchain = es\<rparr>))"

definition file_frame :: "u32 \<Rightarrow> string list \<Rightarrow> frame" where
  "file_frame i names =
     Frame 12 (Some (has_file \<lparr>file_ident = i, file_path = ''/system/lib64/libc.so'',
                                file_symbol = names, file_mangled_symbol = names\<rparr>))"

definition end_frame :: frame where
  "end_frame = Frame 0 None"

text \<open>A report with one sample record and the file record it refers to.\<close>

definition one_sample_report :: report_file where
  "one_sample_report =
     report_of [sample_frame [chain_entry 0 0], file_frame 0 [''read''], end_frame]"

section \<open>The interpreter-frame collapsing\<close>

text \<open>The \<^verbatim>\<open>pop_back\<close> loop removes exactly the trailing interpreter entries.\<close>

lemma pop_interpreter_frames_eq:
  "pop_interpreter_frames es = rev (dropWhile is_entry_for_interpreter (rev es))"
proof (induction es rule: pop_interpreter_frames.induct)
  case (1 entries)
  show ?case
  proof (cases "entries \<noteq> [] \<and> is_entry_for_interpreter (last entries)")
    case True
    then have e: "entries = butlast entries @ [last entries]" by simp
    have "pop_interpreter_frames entries = pop_interpreter_frames (butlast entries)"
      using True by (subst pop_interpreter_frames.simps) simp
    also have "\<dots> = rev (dropWhile is_entry_for_interpreter (rev (butlast entries)))"
      using 1 True by simp
    also have "\<dots> = rev (dropWhile is_entry_for_interpreter (rev entries))"
      using True by (subst (2) e) (simp del: append_butlast_last_id)
    finally show ?thesis .
  next
    case False
    then have "pop_interpreter_frames entries = entries"
      by (subst pop_interpreter_frames.simps) (simp only: if_False)
    moreover have "rev (dropWhile is_entry_for_interpreter (rev entries)) = entries"
      using False by (cases entries rule: rev_cases) auto
    ultimately show ?thesis by simp
  qed
qed

lemma callchain_loop_fold:
  "callchain_loop c thread k i ips acc =
     fst (foldl (push_entry (show_art_frames c)) acc (resolved_frames (thread_tree c) thread k i ips))"
  by (induction ips arbitrary: i acc) (auto split: option.splits)

lemma elide_fold:
  "elide_interpreter_frames acc near fs = fst (foldl (push_entry False) (acc, near) fs)"
  by (induction fs arbitrary: acc near)
     (auto simp: push_entry_def is_interpreted_code_def drop_trailing_interpreter_def pop_interpreter_frames_eq)

lemma keep_fold:
  "fst (foldl (push_entry True) (acc, near) fs) = acc @ fs"
  by (induction fs arbitrary: acc near) (auto simp: push_entry_def)

text \<open>
  C1. With \<^verbatim>\<open>show_art_frames_\<close> off, the entries the loop of \<^verbatim>\<open>ProcessSampleRecord\<close>
  produces are those of the specification's state machine run over the resolved frames: a
  frame of a DEX file removes the interpreter entries at the end of the output, is appended
  and sets the flag; an interpreter frame (one that is not of a DEX file) is skipped while the
  flag is set; a frame that is neither clears the flag. With \<^verbatim>\<open>show_art_frames_\<close> on, the
  entries are the resolved frames unchanged. On the profile, the frames
  [interp, interp, managed, interp, interp, native] give [managed, native] when collapsing
  and all six frames when not.
\<close>

theorem interpreter_frames_collapsed:
  "(\<not> show_art_frames c \<longrightarrow>
      callchain_entries c thread k ips =
        elide_interpreter_frames [] False (resolved_frames (thread_tree c) thread k 0 ips)) \<and>
   (show_art_frames c \<longrightarrow>
      callchain_entries c thread k ips = resolved_frames (thread_tree c) thread k 0 ips) \<and>
   resolved_frames profile_tree main_thread 0 0 [0x11, 0x12, 0x21, 0x13, 0x14, 0x31] =
     [entry_at 0x11 libart_so (symbol_named ''ExecuteSwitchImpl'' 0x10),
      entry_at 0x12 libart_so (symbol_named ''ExecuteSwitchImpl'' 0x10),
      entry_at 0x21 base_vdex (symbol_named ''Main.run'' 0x20),
      entry_at 0x13 libart_so (symbol_named ''ArtInterpreterToInterpreterBridge'' 0x13),
      entry_at 0x14 libart_so (symbol_named ''ArtInterpreterToInterpreterBridge'' 0x13),
      entry_at 0x31 libc_so (symbol_named ''read'' 0x30)] \<and>
   callchain_entries command0 main_thread 0 [0x11, 0x12, 0x21, 0x13, 0x14, 0x31] =
     [entry_at 0x21 base_vdex (symbol_named ''Main.run'' 0x20),
      entry_at 0x31 libc_so (symbol_named ''read'' 0x30)] \<and>
   callchain_entries (command0\<lparr>show_art_frames := True\<rparr>) main_thread 0
       [0x11, 0x12, 0x21, 0x13, 0x14, 0x31] =
     resolved_frames profile_tree main_thread 0 0 [0x11, 0x12, 0x21, 0x13, 0x14, 0x31]"
proof (intro conjI impI)
  assume "\<not> show_art_frames c"
  then show "callchain_entries c thread k ips =
      elide_interpreter_frames [] False (resolved_frames (thread_tree c) thread k 0 ips)"
    by (simp add: callchain_entries_def callchain_loop_fold elide_fold)
next
  assume "show_art_frames c"
  then show "callchain_entries c thread k ips = resolved_frames (thread_tree c) thread k 0 ips"
    by (simp add: callchain_entries_def callchain_loop_fold keep_fold)
next
  show "resolved_frames profile_tree main_thread 0 0 [0x11, 0x12, 0x21, 0x13, 0x14, 0x31] =
     [entry_at 0x11 libart_so (symbol_named ''ExecuteSwitchImpl'' 0x10),
      entry_at 0x12 libart_so (symbol_named ''ExecuteSwitchImpl'' 0x10),
      entry_at 0x21 base_vdex (symbol_named ''Main.run'' 0x20),
      entry_at 0x13 libart_so (symbol_named ''ArtInterpreterToInterpreterBridge'' 0x13),
      entry_at 0x14 libart_so (symbol_named ''ArtInterpreterToInterpreterBridge'' 0x13),
      entry_at 0x31 libc_so (symbol_named ''read'' 0x30)]"
    by code_simp
next
  show "callchain_entries command0 main_thread 0 [0x11, 0x12, 0x21, 0x13, 0x14, 0x31] =
     [entry_at 0x21 base_vdex (symbol_named ''Main.run'' 0x20),
      entry_at 0x31 libc_so (symbol_named ''read'' 0x30)]"
    by code_simp
next
  show "callchain_entries (command0\<lparr>show_art_frames := True\<rparr>) main_thread 0
       [0x11, 0x12, 0x21, 0x13, 0x14, 0x31] =
     resolved_frames profile_tree main_thread 0 0 [0x11, 0x12, 0x21, 0x13, 0x14, 0x31]"
    by code_simp
qed

text \<open>The statement at a concrete chain, for both settings of the option.\<close>

theorem interpreter_frames_collapsed_witness:
  "\<not> show_art_frames command0 \<and>
   callchain_entries command0 main_thread 0 [0x11, 0x21, 0x13] =
     elide_interpreter_frames [] False
       (resolved_frames (thread_tree command0) main_thread 0 0 [0x11, 0x21, 0x13]) \<and>
   elide_interpreter_frames [] False
       (resolved_frames (thread_tree command0) main_thread 0 0 [0x11, 0x21, 0x13]) =
     [entry_at 0x21 base_vdex (symbol_named ''Main.run'' 0x20)] \<and>
   show_art_frames (command0\<lparr>show_art_frames := True\<rparr>) \<and>
   callchain_entries (command0\<lparr>show_art_frames := True\<rparr>) main_thread 0 [0x11, 0x21, 0x13] =
     resolved_frames (thread_tree (command0\<lparr>show_art_frames := True\<rparr>)) main_thread 0 0
       [0x11, 0x21, 0x13]"
proof -
  have off: "\<not> show_art_frames command0" by (simp add: command0_def)
  have on: "show_art_frames (command0\<lparr>show_art_frames := True\<rparr>)" by simp
  have ev: "elide_interpreter_frames [] False
       (resolved_frames (thread_tree command0) main_thread 0 0 [0x11, 0x21, 0x13]) =
     [entry_at 0x21 base_vdex (symbol_named ''Main.run'' 0x20)]" by code_simp
  from off on ev
    interpreter_frames_collapsed [of command0 main_thread 0 "[0x11, 0x21, 0x13]"]
    interpreter_frames_collapsed [of "command0\<lparr>show_art_frames := True\<rparr>" main_thread 0 "[0x11, 0x21, 0x13]"]
  show ?thesis by blast
qed

section \<open>Resolution of the chain\<close>

lemma pop_interpreter_frames_Nil: "pop_interpreter_frames [] = []"
  by (subst pop_interpreter_frames.simps) simp

lemma GetCallEntry_first: "\<exists>e. GetCallEntry tt thread in_kernel ip False = Some e"
  by (simp add: GetCallEntry_def Let_def split: prod.splits)

lemma push_entry_first: "fst (push_entry sa ([], False) e) = [e]"
  by (simp add: push_entry_def pop_interpreter_frames_Nil)

lemma push_entry_nonempty: "fst acc \<noteq> [] \<Longrightarrow> fst (push_entry sa acc e) \<noteq> []"
  by (cases acc) (simp add: push_entry_def)

lemma callchain_loop_nonempty:
  "fst acc \<noteq> [] \<Longrightarrow> callchain_loop c thread k i ips acc \<noteq> []"
  by (induction ips arbitrary: i acc) (auto split: option.splits simp: push_entry_nonempty)

lemma callchain_entries_nonempty:
  assumes "ips \<noteq> []" shows "callchain_entries c thread k ips \<noteq> []"
proof -
  obtain ip rest where ips: "ips = ip # rest" using assms by (cases ips) auto
  obtain e where e: "GetCallEntry (thread_tree c) thread (0 < k) ip False = Some e"
    using GetCallEntry_first by blast
  have "fst (push_entry (show_art_frames c) ([], False) e) \<noteq> []"
    by (simp add: push_entry_first)
  then show ?thesis
    by (simp add: callchain_entries_def ips e callchain_loop_nonempty)
qed

lemma resolved_frames_truncate:
  "j < length ips \<Longrightarrow> 0 < i0 + j \<Longrightarrow>
   IsUnknownDso tt (map_dso (FindMap tt thread (ips ! j) (i0 + j < k))) \<Longrightarrow>
   resolved_frames tt thread k i0 ips = resolved_frames tt thread k i0 (take j ips)"
proof (induction ips arbitrary: i0 j)
  case Nil
  then show ?case by simp
next
  case (Cons ip ips)
  show ?case
  proof (cases j)
    case 0
    with Cons.prems show ?thesis by (simp add: GetCallEntry_def)
  next
    case (Suc j')
    with Cons.prems have "resolved_frames tt thread k (Suc i0) ips = resolved_frames tt thread k (Suc i0) (take j' ips)"
      by (intro Cons.IH) auto
    with Suc show ?thesis by (simp split: option.splits)
  qed
qed

lemma PrintSampleRecord_no_check:
  "entries \<noteq> [] \<Longrightarrow> fst (PrintSampleRecord c r entries) = Returned True"
  by (cases entries) (simp_all add: PrintSampleRecord_def Let_def)

lemma add_callchain_vaddrs:
  "map cc_vaddr_in_file (fst (add_callchain tt es (chain, t))) =
     map cc_vaddr_in_file chain @ map vaddr_in_file (upto_thread_start es)"
  by (induction es arbitrary: chain t) (auto simp: Let_def split: prod.splits option.splits)

lemma print_callchain_lines:
  "print_callchain fp es = fp @ concat (map caller_lines es)"
  by (induction es arbitrary: fp) (simp_all add: Let_def FprintIndented_def caller_lines_def)

lemma PrintSampleRecordInProtobuf_chain:
  assumes "SerializeToCodedStream c = (\<lambda>r. True)"
  shows "\<exists>chain. last (coded_os (snd (PrintSampleRecordInProtobuf c r entries))) =
            Serialized (has_sample \<lparr>time = time_data_time r, event_count = period_data_period r,
              thread_id = tid_data_tid r, event_type_id = of_nat (GetAttrIndexOfRecord r),
              callchain = chain\<rparr>) \<and>
          map cc_vaddr_in_file chain = map vaddr_in_file (upto_thread_start entries)"
proof -
  obtain chain t where a: "add_callchain (thread_tree c) entries ([], dump_ids c) = (chain, t)"
    by (cases "add_callchain (thread_tree c) entries ([], dump_ids c)")
  have "map cc_vaddr_in_file chain = map vaddr_in_file (upto_thread_start entries)"
    using add_callchain_vaddrs [of "thread_tree c" entries "[]" "dump_ids c"] a by simp
  then show ?thesis
    using a assms by (simp add: PrintSampleRecordInProtobuf_def WriteRecordInProtobuf_def Let_def)
qed

lemma PrintSampleRecord_lines:
  "report_fp (snd (PrintSampleRecord c r (e0 # callers))) =
     report_fp c @
     [(0, ''sample:\<newline>''),
      (1, ''event_type: '' @ event_types c ! GetAttrIndexOfRecord r @ ''\<newline>''),
      (1, ''time: '' @ fmt_u (time_data_time r) @ ''\<newline>''),
      (1, ''event_count: '' @ fmt_u (period_data_period r) @ ''\<newline>''),
      (1, ''thread_id: '' @ fmt_d (tid_data_tid r) @ ''\<newline>''),
      (1, ''thread_name: '' @
            comm (FindThreadOrNew (thread_tree c) (tid_data_pid r) (tid_data_tid r)) @ ''\<newline>''),
      (1, ''vaddr_in_file: '' @ fmt_x (vaddr_in_file e0) @ ''\<newline>''),
      (1, ''file: '' @ Path (dso e0) @ ''\<newline>''),
      (1, ''symbol: '' @ DemangledName (symbol e0) @ ''\<newline>'')] @
     (if callers = [] then []
      else (1, ''callchain:\<newline>'') # concat (map caller_lines callers))"
  by (simp add: PrintSampleRecord_def Let_def FprintIndented_def print_callchain_lines)

text \<open>
  C5. The first pointer of a chain is never refused by \<^verbatim>\<open>GetCallEntry\<close>, whatever its
  file: after the first iteration the entry list is exactly that frame. A later pointer
  \<open>ips ! i\<close>, \<open>i > 0\<close>, whose map has an unknown dso ends the loop: the entries are those
  of the chain cut before it. On the profile, [A (known), B (unknown file)] gives [A], the
  sample is still printed with A alone, a known frame after B is not visited, and an unknown
  first frame is kept.
\<close>

theorem unknown_file_truncates_chain:
  "(\<exists>e near. GetCallEntry (thread_tree c) thread (0 < k) ip False = Some e \<and>
        callchain_entries c thread k (ip # rest) = callchain_loop c thread k 1 rest ([e], near)) \<and>
   (0 < i \<and> i < length ips \<and>
    IsUnknownDso (thread_tree c) (map_dso (FindMap (thread_tree c) thread (ips ! i) (i < k))) \<longrightarrow>
      callchain_entries c thread k ips = callchain_entries c thread k (take i ips)) \<and>
   callchain_entries command0 main_thread 0 [0x31, 0x99] =
     [entry_at 0x31 libc_so (symbol_named ''read'' 0x30)] \<and>
   fst (ProcessSampleRecord command0 (sample_of [0x31, 0x99] 0)) = Returned True \<and>
   report_fp (snd (ProcessSampleRecord command0 (sample_of [0x31, 0x99] 0))) =
     [(0, ''sample:\<newline>''), (1, ''event_type: cpu-cycles\<newline>''),
      (1, ''time: 1000\<newline>''), (1, ''event_count: 1\<newline>''),
      (1, ''thread_id: 7\<newline>''), (1, ''thread_name: main\<newline>''),
      (1, ''vaddr_in_file: 31\<newline>''), (1, ''file: /system/lib64/libc.so\<newline>''),
      (1, ''symbol: read\<newline>'')] \<and>
   callchain_entries command0 main_thread 0 [0x31, 0x99, 0x41] =
     [entry_at 0x31 libc_so (symbol_named ''read'' 0x30)] \<and>
   callchain_entries command0 main_thread 0 [0x99, 0x31] =
     [entry_at 0x99 unknown_dso unknown_symbol, entry_at 0x31 libc_so (symbol_named ''read'' 0x30)]"
proof (intro conjI impI)
  obtain e where e: "GetCallEntry (thread_tree c) thread (0 < k) ip False = Some e"
    using GetCallEntry_first by blast
  obtain es near where p: "push_entry (show_art_frames c) ([], False) e = (es, near)"
    by (cases "push_entry (show_art_frames c) ([], False) e")
  then have "es = [e]" using push_entry_first [of "show_art_frames c" e] by simp
  with e p show "\<exists>e near. GetCallEntry (thread_tree c) thread (0 < k) ip False = Some e \<and>
        callchain_entries c thread k (ip # rest) = callchain_loop c thread k 1 rest ([e], near)"
    by (auto simp: callchain_entries_def)
next
  assume "0 < i \<and> i < length ips \<and>
    IsUnknownDso (thread_tree c) (map_dso (FindMap (thread_tree c) thread (ips ! i) (i < k)))"
  then show "callchain_entries c thread k ips = callchain_entries c thread k (take i ips)"
    using resolved_frames_truncate [of i ips 0 "thread_tree c" thread k]
    by (simp add: callchain_entries_def callchain_loop_fold)
next
  show "callchain_entries command0 main_thread 0 [0x31, 0x99] =
     [entry_at 0x31 libc_so (symbol_named ''read'' 0x30)]" by code_simp
next
  show "fst (ProcessSampleRecord command0 (sample_of [0x31, 0x99] 0)) = Returned True" by code_simp
next
  show "report_fp (snd (ProcessSampleRecord command0 (sample_of [0x31, 0x99] 0))) =
     [(0, ''sample:\<newline>''), (1, ''event_type: cpu-cycles\<newline>''),
      (1, ''time: 1000\<newline>''), (1, ''event_count: 1\<newline>''),
      (1, ''thread_id: 7\<newline>''), (1, ''thread_name: main\<newline>''),
      (1, ''vaddr_in_file: 31\<newline>''), (1, ''file: /system/lib64/libc.so\<newline>''),
      (1, ''symbol: read\<newline>'')]" by code_simp
next
  show "callchain_entries command0 main_thread 0 [0x31, 0x99, 0x41] =
     [entry_at 0x31 libc_so (symbol_named ''read'' 0x30)]" by code_simp
next
  show "callchain_entries command0 main_thread 0 [0x99, 0x31] =
     [entry_at 0x99 unknown_dso unknown_symbol, entry_at 0x31 libc_so (symbol_named ''read'' 0x30)]"
    by code_simp
qed

text \<open>The truncation at a concrete chain whose second pointer has no known file.\<close>

theorem unknown_file_truncates_chain_witness:
  "(0 < (1::nat) \<and> 1 < length [0x31, 0x99, 0x41 :: u64] \<and>
    IsUnknownDso (thread_tree command0)
      (map_dso (FindMap (thread_tree command0) main_thread ([0x31, 0x99, 0x41] ! 1) (1 < (0::nat))))) \<and>
   callchain_entries command0 main_thread 0 [0x31, 0x99, 0x41] =
     callchain_entries command0 main_thread 0 (take 1 [0x31, 0x99, 0x41])"
proof -
  have h: "0 < (1::nat) \<and> 1 < length [0x31, 0x99, 0x41 :: u64] \<and>
    IsUnknownDso (thread_tree command0)
      (map_dso (FindMap (thread_tree command0) main_thread ([0x31, 0x99, 0x41] ! 1) (1 < (0::nat))))"
    by code_simp
  with unknown_file_truncates_chain [of command0 main_thread 0 _ _ 1 "[0x31, 0x99, 0x41]"]
  show ?thesis by blast
qed

text \<open>
  C6. When the chain starts with \<open>k > 0\<close> kernel pointers, \<^verbatim>\<open>remove_unknown_kernel_symbols_\<close>
  is set and kernel symbols are not available, the first \<open>k\<close> pointers are erased and the kernel
  count becomes 0: a chain of \<open>k\<close> kernel pointers followed by user pointers leaves exactly
  the user pointers. \<^verbatim>\<open>ProcessSampleRecord\<close> then returns at once when nothing is left, and
  otherwise counts the sample and prints or writes the entries resolved from the remaining
  pointers alone (the first of them when \<^verbatim>\<open>show_callchain_\<close> is off), each looked up as a
  user pointer. On the profile, the sample with two kernel and three user pointers is reported
  with exactly the three user frames, in text and in protobuf mode; with the option off, or
  with kernel symbols available, all five frames are reported.
\<close>

theorem unknown_kernel_frames_removed:
  "(0 < k \<and> remove_unknown_kernel_symbols c \<and> \<not> kernel_symbols_available c \<longrightarrow>
     remove_kernel_ips c (ips, k) = (drop k ips, 0) \<and>
     (length kernel_ips = k \<longrightarrow> remove_kernel_ips c (kernel_ips @ user_ips, k) = (user_ips, 0)) \<and>
     (GetCallChain r = (ips, k) \<longrightarrow>
        ProcessSampleRecord c r = ProcessSampleRecord c (r\<lparr>GetCallChain := (drop k ips, 0)\<rparr>)) \<and>
     (GetCallChain r = (ips, k) \<and> drop k ips = [] \<longrightarrow>
        ProcessSampleRecord c r = (Returned True, c)) \<and>
     (GetCallChain r = (ips, k) \<and> drop k ips \<noteq> [] \<longrightarrow>
        ProcessSampleRecord c r =
          (let c' = c\<lparr>sample_count := sample_count c + 1\<rparr>;
               thread = FindThreadOrNew (thread_tree c) (tid_data_pid r) (tid_data_tid r);
               entries = callchain_entries c' thread 0
                           (if show_callchain c then drop k ips else take 1 (drop k ips))
           in if use_protobuf c
              then (case PrintSampleRecordInProtobuf c' r entries of
                      (ok, c'') \<Rightarrow> (Returned ok, c''))
              else PrintSampleRecord c' r entries))) \<and>
   fst (ProcessSampleRecord (command0\<lparr>remove_unknown_kernel_symbols := True\<rparr>)
          (sample_of [0x81, 0x82, 0x21, 0x31, 0x41] 2)) = Returned True \<and>
   sample_count (snd (ProcessSampleRecord (command0\<lparr>remove_unknown_kernel_symbols := True\<rparr>)
          (sample_of [0x81, 0x82, 0x21, 0x31, 0x41] 2))) = 1 \<and>
   report_fp (snd (ProcessSampleRecord (command0\<lparr>remove_unknown_kernel_symbols := True\<rparr>)
          (sample_of [0x81, 0x82, 0x21, 0x31, 0x41] 2))) =
     [(0, ''sample:\<newline>''), (1, ''event_type: cpu-cycles\<newline>''),
      (1, ''time: 1000\<newline>''), (1, ''event_count: 1\<newline>''),
      (1, ''thread_id: 7\<newline>''), (1, ''thread_name: main\<newline>''),
      (1, ''vaddr_in_file: 21\<newline>''), (1, ''file: /data/app/base.vdex\<newline>''),
      (1, ''symbol: Main.run\<newline>''), (1, ''callchain:\<newline>''),
      (2, ''vaddr_in_file: 31\<newline>''), (2, ''file: /system/lib64/libc.so\<newline>''),
      (2, ''symbol: read\<newline>''), (2, ''vaddr_in_file: 41\<newline>''),
      (2, ''file: /system/bin/app_process64\<newline>''), (2, ''symbol: _start_main\<newline>'')] \<and>
   coded_os (snd (ProcessSampleRecord
          (command0\<lparr>remove_unknown_kernel_symbols := True, use_protobuf := True\<rparr>)
          (sample_of [0x81, 0x82, 0x21, 0x31, 0x41] 2))) =
     [WriteLittleEndian32 1,
      Serialized (has_sample \<lparr>time = 1000, event_count = 1, thread_id = 7, event_type_id = 0,
        callchain = [\<lparr>cc_vaddr_in_file = 0x21, file_id = 0, symbol_id = 0\<rparr>,
                     \<lparr>cc_vaddr_in_file = 0x31, file_id = 1, symbol_id = 0\<rparr>,
                     \<lparr>cc_vaddr_in_file = 0x41, file_id = 2, symbol_id = 0\<rparr>]\<rparr>)] \<and>
   report_fp (snd (ProcessSampleRecord command0 (sample_of [0x81, 0x82, 0x21, 0x31, 0x41] 2))) =
     [(0, ''sample:\<newline>''), (1, ''event_type: cpu-cycles\<newline>''),
      (1, ''time: 1000\<newline>''), (1, ''event_count: 1\<newline>''),
      (1, ''thread_id: 7\<newline>''), (1, ''thread_name: main\<newline>''),
      (1, ''vaddr_in_file: 81\<newline>''), (1, ''file: [kernel.kallsyms]\<newline>''),
      (1, ''symbol: unknown\<newline>''), (1, ''callchain:\<newline>''),
      (2, ''vaddr_in_file: 82\<newline>''), (2, ''file: [kernel.kallsyms]\<newline>''),
      (2, ''symbol: unknown\<newline>''), (2, ''vaddr_in_file: 21\<newline>''),
      (2, ''file: /data/app/base.vdex\<newline>''), (2, ''symbol: Main.run\<newline>''),
      (2, ''vaddr_in_file: 31\<newline>''), (2, ''file: /system/lib64/libc.so\<newline>''),
      (2, ''symbol: read\<newline>''), (2, ''vaddr_in_file: 41\<newline>''),
      (2, ''file: /system/bin/app_process64\<newline>''), (2, ''symbol: _start_main\<newline>'')] \<and>
   report_fp (snd (ProcessSampleRecord
          (command0\<lparr>remove_unknown_kernel_symbols := True, kernel_symbols_available := True\<rparr>)
          (sample_of [0x81, 0x82, 0x21, 0x31, 0x41] 2))) =
     report_fp (snd (ProcessSampleRecord command0 (sample_of [0x81, 0x82, 0x21, 0x31, 0x41] 2)))"
proof (intro conjI)
  show "0 < k \<and> remove_unknown_kernel_symbols c \<and> \<not> kernel_symbols_available c \<longrightarrow>
     remove_kernel_ips c (ips, k) = (drop k ips, 0) \<and>
     (length kernel_ips = k \<longrightarrow> remove_kernel_ips c (kernel_ips @ user_ips, k) = (user_ips, 0)) \<and>
     (GetCallChain r = (ips, k) \<longrightarrow>
        ProcessSampleRecord c r = ProcessSampleRecord c (r\<lparr>GetCallChain := (drop k ips, 0)\<rparr>)) \<and>
     (GetCallChain r = (ips, k) \<and> drop k ips = [] \<longrightarrow>
        ProcessSampleRecord c r = (Returned True, c)) \<and>
     (GetCallChain r = (ips, k) \<and> drop k ips \<noteq> [] \<longrightarrow>
        ProcessSampleRecord c r =
          (let c' = c\<lparr>sample_count := sample_count c + 1\<rparr>;
               thread = FindThreadOrNew (thread_tree c) (tid_data_pid r) (tid_data_tid r);
               entries = callchain_entries c' thread 0
                           (if show_callchain c then drop k ips else take 1 (drop k ips))
           in if use_protobuf c
              then (case PrintSampleRecordInProtobuf c' r entries of
                      (ok, c'') \<Rightarrow> (Returned ok, c''))
              else PrintSampleRecord c' r entries))"
  proof (intro impI conjI)
    assume h: "0 < k \<and> remove_unknown_kernel_symbols c \<and> \<not> kernel_symbols_available c"
    then show "remove_kernel_ips c (ips, k) = (drop k ips, 0)"
      by (simp add: remove_kernel_ips_def)
    show "remove_kernel_ips c (kernel_ips @ user_ips, k) = (user_ips, 0)" if "length kernel_ips = k"
      using h that by (simp add: remove_kernel_ips_def)
    show "ProcessSampleRecord c r = ProcessSampleRecord c (r\<lparr>GetCallChain := (drop k ips, 0)\<rparr>)"
      if "GetCallChain r = (ips, k)"
      using h that
      by (simp add: remove_kernel_ips_def ProcessSampleRecord_def PrintSampleRecord_def
            PrintSampleRecordInProtobuf_def Let_def)
    show "ProcessSampleRecord c r = (Returned True, c)"
      if "GetCallChain r = (ips, k) \<and> drop k ips = []"
      using h that by (simp add: remove_kernel_ips_def ProcessSampleRecord_def)
    show "ProcessSampleRecord c r =
          (let c' = c\<lparr>sample_count := sample_count c + 1\<rparr>;
               thread = FindThreadOrNew (thread_tree c) (tid_data_pid r) (tid_data_tid r);
               entries = callchain_entries c' thread 0
                           (if show_callchain c then drop k ips else take 1 (drop k ips))
           in if use_protobuf c
              then (case PrintSampleRecordInProtobuf c' r entries of
                      (ok, c'') \<Rightarrow> (Returned ok, c''))
              else PrintSampleRecord c' r entries)"
      if "GetCallChain r = (ips, k) \<and> drop k ips \<noteq> []"
      using h that by (simp add: remove_kernel_ips_def ProcessSampleRecord_def Let_def)
  qed
  show "fst (ProcessSampleRecord (command0\<lparr>remove_unknown_kernel_symbols := True\<rparr>)
          (sample_of [0x81, 0x82, 0x21, 0x31, 0x41] 2)) = Returned True"
    by code_simp
  show "sample_count (snd (ProcessSampleRecord (command0\<lparr>remove_unknown_kernel_symbols := True\<rparr>)
          (sample_of [0x81, 0x82, 0x21, 0x31, 0x41] 2))) = 1"
    by code_simp
  show "report_fp (snd (ProcessSampleRecord (command0\<lparr>remove_unknown_kernel_symbols := True\<rparr>)
          (sample_of [0x81, 0x82, 0x21, 0x31, 0x41] 2))) =
     [(0, ''sample:\<newline>''), (1, ''event_type: cpu-cycles\<newline>''),
      (1, ''time: 1000\<newline>''), (1, ''event_count: 1\<newline>''),
      (1, ''thread_id: 7\<newline>''), (1, ''thread_name: main\<newline>''),
      (1, ''vaddr_in_file: 21\<newline>''), (1, ''file: /data/app/base.vdex\<newline>''),
      (1, ''symbol: Main.run\<newline>''), (1, ''callchain:\<newline>''),
      (2, ''vaddr_in_file: 31\<newline>''), (2, ''file: /system/lib64/libc.so\<newline>''),
      (2, ''symbol: read\<newline>''), (2, ''vaddr_in_file: 41\<newline>''),
      (2, ''file: /system/bin/app_process64\<newline>''), (2, ''symbol: _start_main\<newline>'')]"
    by code_simp
  show "coded_os (snd (ProcessSampleRecord
          (command0\<lparr>remove_unknown_kernel_symbols := True, use_protobuf := True\<rparr>)
          (sample_of [0x81, 0x82, 0x21, 0x31, 0x41] 2))) =
     [WriteLittleEndian32 1,
      Serialized (has_sample \<lparr>time = 1000, event_count = 1, thread_id = 7, event_type_id = 0,
        callchain = [\<lparr>cc_vaddr_in_file = 0x21, file_id = 0, symbol_id = 0\<rparr>,
                     \<lparr>cc_vaddr_in_file = 0x31, file_id = 1, symbol_id = 0\<rparr>,
                     \<lparr>cc_vaddr_in_file = 0x41, file_id = 2, symbol_id = 0\<rparr>]\<rparr>)]"
    by code_simp
  show "report_fp (snd (ProcessSampleRecord command0 (sample_of [0x81, 0x82, 0x21, 0x31, 0x41] 2))) =
     [(0, ''sample:\<newline>''), (1, ''event_type: cpu-cycles\<newline>''),
      (1, ''time: 1000\<newline>''), (1, ''event_count: 1\<newline>''),
      (1, ''thread_id: 7\<newline>''), (1, ''thread_name: main\<newline>''),
      (1, ''vaddr_in_file: 81\<newline>''), (1, ''file: [kernel.kallsyms]\<newline>''),
      (1, ''symbol: unknown\<newline>''), (1, ''callchain:\<newline>''),
      (2, ''vaddr_in_file: 82\<newline>''), (2, ''file: [kernel.kallsyms]\<newline>''),
      (2, ''symbol: unknown\<newline>''), (2, ''vaddr_in_file: 21\<newline>''),
      (2, ''file: /data/app/base.vdex\<newline>''), (2, ''symbol: Main.run\<newline>''),
      (2, ''vaddr_in_file: 31\<newline>''), (2, ''file: /system/lib64/libc.so\<newline>''),
      (2, ''symbol: read\<newline>''), (2, ''vaddr_in_file: 41\<newline>''),
      (2, ''file: /system/bin/app_process64\<newline>''), (2, ''symbol: _start_main\<newline>'')]"
    by code_simp
  show "report_fp (snd (ProcessSampleRecord
          (command0\<lparr>remove_unknown_kernel_symbols := True, kernel_symbols_available := True\<rparr>)
          (sample_of [0x81, 0x82, 0x21, 0x31, 0x41] 2))) =
     report_fp (snd (ProcessSampleRecord command0 (sample_of [0x81, 0x82, 0x21, 0x31, 0x41] 2)))"
    by code_simp
qed

text \<open>
  Two kernel pointers and three user pointers: the three user pointers are left, and the
  sample is printed with the three entries they resolve to.
\<close>

theorem unknown_kernel_frames_removed_witness:
  "(0 < (2::nat) \<and> remove_unknown_kernel_symbols (command0\<lparr>remove_unknown_kernel_symbols := True\<rparr>) \<and>
    \<not> kernel_symbols_available (command0\<lparr>remove_unknown_kernel_symbols := True\<rparr>)) \<and>
   length [0x81, 0x82 :: u64] = 2 \<and> length [0x21, 0x31, 0x41 :: u64] = 3 \<and>
   GetCallChain (sample_of [0x81, 0x82, 0x21, 0x31, 0x41] 2) = ([0x81, 0x82, 0x21, 0x31, 0x41], 2) \<and>
   drop 2 [0x81, 0x82, 0x21, 0x31, 0x41 :: u64] \<noteq> [] \<and>
   remove_kernel_ips (command0\<lparr>remove_unknown_kernel_symbols := True\<rparr>)
     ([0x81, 0x82] @ [0x21, 0x31, 0x41], 2) = ([0x21, 0x31, 0x41], 0) \<and>
   ProcessSampleRecord (command0\<lparr>remove_unknown_kernel_symbols := True\<rparr>)
       (sample_of [0x81, 0x82, 0x21, 0x31, 0x41] 2) =
     PrintSampleRecord
       (command0\<lparr>remove_unknown_kernel_symbols := True,
                 sample_count := sample_count (command0\<lparr>remove_unknown_kernel_symbols := True\<rparr>) + 1\<rparr>)
       (sample_of [0x81, 0x82, 0x21, 0x31, 0x41] 2)
       [entry_at 0x21 base_vdex (symbol_named ''Main.run'' 0x20),
        entry_at 0x31 libc_so (symbol_named ''read'' 0x30),
        entry_at 0x41 app_process (symbol_named ''_start_main'' 0x40)]"
proof -
  let ?c = "command0\<lparr>remove_unknown_kernel_symbols := True\<rparr>"
  let ?ips = "[0x81, 0x82, 0x21, 0x31, 0x41] :: u64 list"
  let ?r = "sample_of ?ips 2"
  have h: "0 < (2::nat) \<and> remove_unknown_kernel_symbols ?c \<and> \<not> kernel_symbols_available ?c"
    by (simp add: command0_def)
  have g: "GetCallChain ?r = (?ips, 2)" by (simp add: sample_of_def)
  have n: "drop 2 ?ips \<noteq> []" by simp
  have l: "length [0x81, 0x82 :: u64] = 2" by simp
  have f: "use_protobuf ?c = False" by (simp add: command0_def)
  have ev: "callchain_entries (?c\<lparr>sample_count := sample_count ?c + 1\<rparr>)
              (FindThreadOrNew (thread_tree ?c) (tid_data_pid ?r) (tid_data_tid ?r)) 0
              (if show_callchain ?c then drop 2 ?ips else take 1 (drop 2 ?ips)) =
        [entry_at 0x21 base_vdex (symbol_named ''Main.run'' 0x20),
         entry_at 0x31 libc_so (symbol_named ''read'' 0x30),
         entry_at 0x41 app_process (symbol_named ''_start_main'' 0x40)]"
    by code_simp
  from unknown_kernel_frames_removed
         [of 2 ?c ?ips "[0x81, 0x82]" "[0x21, 0x31, 0x41]" ?r] h g n l
  have rm: "remove_kernel_ips ?c ([0x81, 0x82] @ [0x21, 0x31, 0x41], 2) = ([0x21, 0x31, 0x41], 0)"
    and pr: "ProcessSampleRecord ?c ?r =
          (let c' = ?c\<lparr>sample_count := sample_count ?c + 1\<rparr>;
               thread = FindThreadOrNew (thread_tree ?c) (tid_data_pid ?r) (tid_data_tid ?r);
               entries = callchain_entries c' thread 0
                           (if show_callchain ?c then drop 2 ?ips else take 1 (drop 2 ?ips))
           in if use_protobuf ?c
              then (case PrintSampleRecordInProtobuf c' ?r entries of
                      (ok, c'') \<Rightarrow> (Returned ok, c''))
              else PrintSampleRecord c' ?r entries)"
    by blast+
  from pr have "ProcessSampleRecord ?c ?r =
      PrintSampleRecord (?c\<lparr>sample_count := sample_count ?c + 1\<rparr>) ?r
        [entry_at 0x21 base_vdex (symbol_named ''Main.run'' 0x20),
         entry_at 0x31 libc_so (symbol_named ''read'' 0x30),
         entry_at 0x41 app_process (symbol_named ''_start_main'' 0x40)]"
    by (simp only: Let_def ev f if_False)
  with h g n l rm show ?thesis by simp
qed

text \<open>
  C7. A sample whose chain is empty after the removal of kernel pointers makes
  \<^verbatim>\<open>ProcessSampleRecord\<close> return true with the command unchanged: nothing is written to the
  text report or to the protobuf stream, the sample counter keeps its value, and no dump id is
  created.
\<close>

theorem empty_chain_reports_nothing:
  "fst (remove_kernel_ips c (GetCallChain r)) = [] \<longrightarrow>
     ProcessSampleRecord c r = (Returned True, c) \<and>
     report_fp (snd (ProcessSampleRecord c r)) = report_fp c \<and>
     coded_os (snd (ProcessSampleRecord c r)) = coded_os c \<and>
     sample_count (snd (ProcessSampleRecord c r)) = sample_count c \<and>
     dump_ids (snd (ProcessSampleRecord c r)) = dump_ids c"
  by (cases "remove_kernel_ips c (GetCallChain r)") (simp add: ProcessSampleRecord_def)

text \<open>A chain of two kernel pointers, removed, in protobuf mode.\<close>

theorem empty_chain_reports_nothing_witness:
  "fst (remove_kernel_ips (command0\<lparr>remove_unknown_kernel_symbols := True, use_protobuf := True\<rparr>)
         (GetCallChain (sample_of [0x81, 0x82] 2))) = [] \<and>
   ProcessSampleRecord (command0\<lparr>remove_unknown_kernel_symbols := True, use_protobuf := True\<rparr>)
       (sample_of [0x81, 0x82] 2) =
     (Returned True, command0\<lparr>remove_unknown_kernel_symbols := True, use_protobuf := True\<rparr>)"
proof -
  let ?c = "command0\<lparr>remove_unknown_kernel_symbols := True, use_protobuf := True\<rparr>"
  have h: "fst (remove_kernel_ips ?c (GetCallChain (sample_of [0x81, 0x82] 2))) = []"
    by (simp add: remove_kernel_ips_def sample_of_def command0_def)
  with empty_chain_reports_nothing [of ?c "sample_of [0x81, 0x82] 2"]
  show ?thesis by blast
qed

text \<open>
  C8. A chain that is not empty resolves to an entry list that is not empty, the
  \<^verbatim>\<open>CHECK(!entries.empty())\<close> of \<^verbatim>\<open>PrintSampleRecord\<close> passes on such a list, and
  \<^verbatim>\<open>ProcessSampleRecord\<close> never ends in a failed check.
\<close>

theorem entries_never_empty:
  "(ips \<noteq> [] \<longrightarrow> callchain_entries c thread k ips \<noteq> []) \<and>
   (\<forall>entries. entries \<noteq> [] \<longrightarrow> fst (PrintSampleRecord c r entries) \<noteq> CHECK_failed) \<and>
   fst (ProcessSampleRecord c r) \<noteq> CHECK_failed"
proof (intro conjI impI allI)
  assume "ips \<noteq> []"
  then show "callchain_entries c thread k ips \<noteq> []" by (rule callchain_entries_nonempty)
next
  fix entries :: "CallEntry list"
  assume "entries \<noteq> []"
  then show "fst (PrintSampleRecord c r entries) \<noteq> CHECK_failed"
    by (simp add: PrintSampleRecord_no_check)
next
  obtain ips' k' where rk: "remove_kernel_ips c (GetCallChain r) = (ips', k')"
    by (cases "remove_kernel_ips c (GetCallChain r)")
  show "fst (ProcessSampleRecord c r) \<noteq> CHECK_failed"
  proof (cases "ips' = []")
    case True
    with rk show ?thesis by (simp add: ProcessSampleRecord_def)
  next
    case False
    then have t: "take 1 ips' \<noteq> []" by (cases ips') auto
    show ?thesis using rk False t
      by (simp add: ProcessSampleRecord_def Let_def PrintSampleRecord_no_check
          callchain_entries_nonempty split: prod.splits)
  qed
qed

text \<open>A chain whose first entry is popped by the collapsing still gives an entry.\<close>

theorem entries_never_empty_witness:
  "[0x11, 0x21 :: u64] \<noteq> [] \<and>
   callchain_entries command0 main_thread 0 [0x11, 0x21] \<noteq> [] \<and>
   callchain_entries command0 main_thread 0 [0x11, 0x21] =
     [entry_at 0x21 base_vdex (symbol_named ''Main.run'' 0x20)] \<and>
   fst (ProcessSampleRecord command0 (sample_of [0x11, 0x21] 0)) \<noteq> CHECK_failed"
proof -
  have e: "callchain_entries command0 main_thread 0 [0x11, 0x21] =
     [entry_at 0x21 base_vdex (symbol_named ''Main.run'' 0x20)]" by code_simp
  have n: "[0x11, 0x21 :: u64] \<noteq> []" by simp
  from entries_never_empty [of "[0x11, 0x21]" command0 main_thread 0 "sample_of [0x11, 0x21] 0"] n e
  show ?thesis by blast
qed

text \<open>
  C9. In protobuf mode the call chain written for a sample is the entry list up to and
  including its first entry of file name \<open>libc.so\<close> and symbol name \<open>__libc_init\<close> or
  \<open>__start_thread\<close>; the text mode prints every entry. On the profile, the chain
  [read, __libc_init, _start_main] is written with two entries in protobuf mode and printed
  with three in text mode.
\<close>

theorem protobuf_chain_ends_at_thread_start:
  "(SerializeToCodedStream c = (\<lambda>r. True) \<longrightarrow>
      (\<exists>chain. last (coded_os (snd (PrintSampleRecordInProtobuf c r entries))) =
            Serialized (has_sample \<lparr>time = time_data_time r, event_count = period_data_period r,
              thread_id = tid_data_tid r, event_type_id = of_nat (GetAttrIndexOfRecord r),
              callchain = chain\<rparr>) \<and>
          map cc_vaddr_in_file chain = map vaddr_in_file (upto_thread_start entries))) \<and>
   (\<exists>header. report_fp (snd (PrintSampleRecord c r (e0 # callers))) =
      report_fp c @ header @
      [(1, ''vaddr_in_file: '' @ fmt_x (vaddr_in_file e0) @ ''\<newline>''),
       (1, ''file: '' @ Path (dso e0) @ ''\<newline>''),
       (1, ''symbol: '' @ DemangledName (symbol e0) @ ''\<newline>'')] @
      (if callers = [] then []
       else (1, ''callchain:\<newline>'') # concat (map caller_lines callers))) \<and>
   coded_os (snd (ProcessSampleRecord (command0\<lparr>use_protobuf := True\<rparr>)
                    (sample_of [0x31, 0x32, 0x41] 0))) =
     [WriteLittleEndian32 1,
      Serialized (has_sample \<lparr>time = 1000, event_count = 1, thread_id = 7, event_type_id = 0,
        callchain = [\<lparr>cc_vaddr_in_file = 0x31, file_id = 0, symbol_id = 0\<rparr>,
                     \<lparr>cc_vaddr_in_file = 0x32, file_id = 0, symbol_id = 1\<rparr>]\<rparr>)] \<and>
   report_fp (snd (ProcessSampleRecord command0 (sample_of [0x31, 0x32, 0x41] 0))) =
     [(0, ''sample:\<newline>''), (1, ''event_type: cpu-cycles\<newline>''),
      (1, ''time: 1000\<newline>''), (1, ''event_count: 1\<newline>''),
      (1, ''thread_id: 7\<newline>''), (1, ''thread_name: main\<newline>''),
      (1, ''vaddr_in_file: 31\<newline>''), (1, ''file: /system/lib64/libc.so\<newline>''),
      (1, ''symbol: read\<newline>''), (1, ''callchain:\<newline>''),
      (2, ''vaddr_in_file: 32\<newline>''), (2, ''file: /system/lib64/libc.so\<newline>''),
      (2, ''symbol: __libc_init\<newline>''), (2, ''vaddr_in_file: 41\<newline>''),
      (2, ''file: /system/bin/app_process64\<newline>''), (2, ''symbol: _start_main\<newline>'')]"
proof (intro conjI impI)
  assume "SerializeToCodedStream c = (\<lambda>r. True)"
  then show "\<exists>chain. last (coded_os (snd (PrintSampleRecordInProtobuf c r entries))) =
            Serialized (has_sample \<lparr>time = time_data_time r, event_count = period_data_period r,
              thread_id = tid_data_tid r, event_type_id = of_nat (GetAttrIndexOfRecord r),
              callchain = chain\<rparr>) \<and>
          map cc_vaddr_in_file chain = map vaddr_in_file (upto_thread_start entries)"
    by (rule PrintSampleRecordInProtobuf_chain)
next
  show "\<exists>header. report_fp (snd (PrintSampleRecord c r (e0 # callers))) =
      report_fp c @ header @
      [(1, ''vaddr_in_file: '' @ fmt_x (vaddr_in_file e0) @ ''\<newline>''),
       (1, ''file: '' @ Path (dso e0) @ ''\<newline>''),
       (1, ''symbol: '' @ DemangledName (symbol e0) @ ''\<newline>'')] @
      (if callers = [] then []
       else (1, ''callchain:\<newline>'') # concat (map caller_lines callers))"
    by (subst PrintSampleRecord_lines, rule exI [where x =
      "[(0, ''sample:\<newline>''),
        (1, ''event_type: '' @ event_types c ! GetAttrIndexOfRecord r @ ''\<newline>''),
        (1, ''time: '' @ fmt_u (time_data_time r) @ ''\<newline>''),
        (1, ''event_count: '' @ fmt_u (period_data_period r) @ ''\<newline>''),
        (1, ''thread_id: '' @ fmt_d (tid_data_tid r) @ ''\<newline>''),
        (1, ''thread_name: '' @
              comm (FindThreadOrNew (thread_tree c) (tid_data_pid r) (tid_data_tid r)) @
              ''\<newline>'')]"]) simp
next
  show "coded_os (snd (ProcessSampleRecord (command0\<lparr>use_protobuf := True\<rparr>)
                    (sample_of [0x31, 0x32, 0x41] 0))) =
     [WriteLittleEndian32 1,
      Serialized (has_sample \<lparr>time = 1000, event_count = 1, thread_id = 7, event_type_id = 0,
        callchain = [\<lparr>cc_vaddr_in_file = 0x31, file_id = 0, symbol_id = 0\<rparr>,
                     \<lparr>cc_vaddr_in_file = 0x32, file_id = 0, symbol_id = 1\<rparr>]\<rparr>)]"
    by code_simp
next
  show "report_fp (snd (ProcessSampleRecord command0 (sample_of [0x31, 0x32, 0x41] 0))) =
     [(0, ''sample:\<newline>''), (1, ''event_type: cpu-cycles\<newline>''),
      (1, ''time: 1000\<newline>''), (1, ''event_count: 1\<newline>''),
      (1, ''thread_id: 7\<newline>''), (1, ''thread_name: main\<newline>''),
      (1, ''vaddr_in_file: 31\<newline>''), (1, ''file: /system/lib64/libc.so\<newline>''),
      (1, ''symbol: read\<newline>''), (1, ''callchain:\<newline>''),
      (2, ''vaddr_in_file: 32\<newline>''), (2, ''file: /system/lib64/libc.so\<newline>''),
      (2, ''symbol: __libc_init\<newline>''), (2, ''vaddr_in_file: 41\<newline>''),
      (2, ''file: /system/bin/app_process64\<newline>''), (2, ''symbol: _start_main\<newline>'')]"
    by code_simp
qed

text \<open>The cut at a concrete entry list: the entry after \<open>__libc_init\<close> is not written.\<close>

theorem protobuf_chain_ends_at_thread_start_witness:
  "SerializeToCodedStream command0 = (\<lambda>r. True) \<and>
   upto_thread_start
       [entry_at 0x31 libc_so (symbol_named ''read'' 0x30),
        entry_at 0x32 libc_so (symbol_named ''__libc_init'' 0x32),
        entry_at 0x41 app_process (symbol_named ''_start_main'' 0x40)] =
     [entry_at 0x31 libc_so (symbol_named ''read'' 0x30),
      entry_at 0x32 libc_so (symbol_named ''__libc_init'' 0x32)] \<and>
   (\<exists>chain. last (coded_os (snd (PrintSampleRecordInProtobuf command0 (sample_of [] 0)
              [entry_at 0x31 libc_so (symbol_named ''read'' 0x30),
               entry_at 0x32 libc_so (symbol_named ''__libc_init'' 0x32),
               entry_at 0x41 app_process (symbol_named ''_start_main'' 0x40)]))) =
        Serialized (has_sample \<lparr>time = time_data_time (sample_of [] 0),
          event_count = period_data_period (sample_of [] 0),
          thread_id = tid_data_tid (sample_of [] 0),
          event_type_id = of_nat (GetAttrIndexOfRecord (sample_of [] 0)),
          callchain = chain\<rparr>) \<and>
      map cc_vaddr_in_file chain = [0x31, 0x32])"
proof -
  let ?es = "[entry_at 0x31 libc_so (symbol_named ''read'' 0x30),
              entry_at 0x32 libc_so (symbol_named ''__libc_init'' 0x32),
              entry_at 0x41 app_process (symbol_named ''_start_main'' 0x40)]"
  have h: "SerializeToCodedStream command0 = (\<lambda>r. True)" by (simp add: command0_def)
  have u: "upto_thread_start ?es =
     [entry_at 0x31 libc_so (symbol_named ''read'' 0x30),
      entry_at 0x32 libc_so (symbol_named ''__libc_init'' 0x32)]" by code_simp
  have v: "map vaddr_in_file (upto_thread_start ?es) = [0x31, 0x32]"
    unfolding u by (simp add: entry_at_def)
  from protobuf_chain_ends_at_thread_start [of command0 "sample_of [] 0" ?es] h
  have "\<exists>chain. last (coded_os (snd (PrintSampleRecordInProtobuf command0 (sample_of [] 0) ?es))) =
        Serialized (has_sample \<lparr>time = time_data_time (sample_of [] 0),
          event_count = period_data_period (sample_of [] 0),
          thread_id = tid_data_tid (sample_of [] 0),
          event_type_id = of_nat (GetAttrIndexOfRecord (sample_of [] 0)),
          callchain = chain\<rparr>) \<and>
      map cc_vaddr_in_file chain = map vaddr_in_file (upto_thread_start ?es)"
    by blast
  with h u v show ?thesis by simp
qed

section \<open>The dump: what an accepted report satisfies\<close>

text \<open>Signed and unsigned order agree on the symbol ids the dump records.\<close>

lemma nonneg_sint_uint:
  fixes a :: i32
  assumes "0 \<le> sint a"
  shows "uint a = sint a"
proof -
  have "sint a < 2 ^ 31" using sint_lt [of a] by simp
  then have "take_bit 32 (sint a) = sint a"
    using assms by (intro take_bit_int_eq_self) auto
  then show ?thesis by (simp add: uint_sint)
qed

lemma sle_imp_le:
  fixes a b :: i32
  assumes "0 \<le>s a" and "a \<le>s b"
  shows "a \<le> b"
proof -
  have a: "0 \<le> sint a" using assms(1) by (simp add: word_sle_eq)
  have b: "sint a \<le> sint b" using assms(2) by (simp add: word_sle_eq)
  have "uint a = sint a" "uint b = sint b"
    using a b by (simp_all add: nonneg_sint_uint)
  with b show ?thesis by (simp add: word_le_def)
qed

lemma not_below_minus_one:
  fixes s :: i32
  assumes "\<not> s <s - 1" and "s \<noteq> - 1"
  shows "0 \<le>s s"
proof -
  have "- 1 \<le>s s" using assms(1) by (simp add: signed.not_less)
  with assms(2) have "- 1 <s s" by (simp add: signed.less_le)
  then have "- 1 < sint s" by (simp add: word_sless_alt)
  then show ?thesis by (simp add: word_sle_eq)
qed

lemma map_of_map_assign: "map_of (map_assign m k v) = (map_of m)(k \<mapsto> v)"
  by (induction m) auto

lemma map_grows_refl: "map_grows m m"
  by (auto simp: map_grows_def)

lemma map_grows_trans: "map_grows a b \<Longrightarrow> map_grows b c \<Longrightarrow> map_grows a c"
  unfolding map_grows_def by (meson signed.order_trans)

lemma std_max_ge: "a \<le>s std_max a b" "b \<le>s std_max a b"
  by (auto simp: std_max_def)

lemma map_grows_assign:
  "map_grows m (map_assign m k (std_max (map_at m k) s))"
  by (auto simp: map_grows_def map_of_map_assign map_at_def std_max_ge)

lemma recorded_assign:
  assumes "\<not> symbol_id e <s - 1" and "symbol_id e \<noteq> - 1"
  shows "recorded (map_assign m (file_id e) (std_max (map_at m (file_id e)) (symbol_id e))) e"
  using assms by (simp add: recorded_def map_of_map_assign std_max_ge not_below_minus_one)

lemma recorded_mono:
  assumes "recorded m e" and "map_grows m m'"
  shows "recorded m' e"
proof (cases "symbol_id e = - 1")
  case True
  then show ?thesis by (simp add: recorded_def)
next
  case False
  with assms(1) obtain v where v: "map_of m (file_id e) = Some v"
    and b: "0 \<le>s symbol_id e" "symbol_id e \<le>s v"
    by (auto simp: recorded_def split: option.splits)
  from assms(2) v obtain v' where v': "map_of m' (file_id e) = Some v'" and "v \<le>s v'"
    unfolding map_grows_def by blast
  with b have "symbol_id e \<le>s v'" by (meson signed.order_trans)
  with v' b show ?thesis by (simp add: recorded_def)
qed

text \<open>What a successful pass over call chain entries, records and frames establishes.\<close>

lemma dump_callchain_inv:
  "dump_callchain st es = (True, st') \<Longrightarrow>
     files st' = files st \<and>
     map_grows (max_symbol_id_map st) (max_symbol_id_map st') \<and>
     (\<forall>e\<in>set es. recorded (max_symbol_id_map st') e)"
proof (induction es arbitrary: st)
  case Nil
  then show ?case by (simp add: map_grows_refl)
next
  case (Cons cc rest)
  let ?m = "max_symbol_id_map st"
  let ?m1 = "if symbol_id cc \<noteq> - 1
             then map_assign ?m (file_id cc) (std_max (map_at ?m (file_id cc)) (symbol_id cc))
             else ?m"
  from Cons.prems have ok: "\<not> symbol_id cc <s - 1"
    by (auto simp: Let_def split: if_splits)
  from Cons.prems ok obtain st1 where
    rest: "dump_callchain st1 rest = (True, st')" and
    f1: "files st1 = files st" and m1: "max_symbol_id_map st1 = ?m1"
    by (auto simp: Let_def split: if_splits)
  from Cons.IH [OF rest] have
    f: "files st' = files st1" and
    g: "map_grows (max_symbol_id_map st1) (max_symbol_id_map st')" and
    r: "\<forall>e\<in>set rest. recorded (max_symbol_id_map st') e"
    by auto
  have g1: "map_grows ?m ?m1"
    by (simp add: map_grows_refl map_grows_assign)
  have r1: "recorded ?m1 cc"
    using ok by (cases "symbol_id cc = - 1") (simp_all add: recorded_assign, simp add: recorded_def)
  have "recorded (max_symbol_id_map st') cc"
    using r1 g m1 by (auto intro: recorded_mono)
  moreover have "map_grows ?m (max_symbol_id_map st')"
    using g1 g m1 by (auto intro: map_grows_trans)
  ultimately show ?case using f f1 r by simp
qed

lemma dump_record_inv:
  "dump_record st r = (True, st') \<Longrightarrow>
     map_grows (max_symbol_id_map st) (max_symbol_id_map st') \<and>
     (\<forall>e\<in>set (referenced [r]). recorded (max_symbol_id_map st') e) \<and>
     files st' = files st @ map symbol_count (file_records [r]) \<and>
     map (\<lambda>x. unat (file_ident x)) (file_records [r]) = [length (files st)..<length (files st')]"
proof (cases r)
  case (has_sample sample)
  assume a: "dump_record st r = (True, st')"
  then obtain st0 where d: "dump_callchain st0 (callchain sample) = (True, st')"
    and "files st0 = files st" "max_symbol_id_map st0 = max_symbol_id_map st"
    using has_sample by (auto simp: Let_def)
  with dump_callchain_inv [OF d] has_sample show ?thesis by simp
qed (auto simp: Let_def map_grows_refl symbol_count_def split: if_splits)

lemma file_records_Cons: "file_records (r # rs) = file_records [r] @ file_records rs"
  by (cases r) auto

lemma referenced_Cons: "referenced (r # rs) = referenced [r] @ referenced rs"
  by (cases r) auto

lemma dump_frames_inv:
  "dump_frames st fr = (True, st') \<Longrightarrow>
     map_grows (max_symbol_id_map st) (max_symbol_id_map st') \<and>
     (\<forall>e\<in>set (referenced (records_read fr)). recorded (max_symbol_id_map st') e) \<and>
     files st' = files st @ map symbol_count (file_records (records_read fr)) \<and>
     map (\<lambda>x. unat (file_ident x)) (file_records (records_read fr)) =
       [length (files st)..<length (files st')]"
proof (induction fr arbitrary: st)
  case Nil
  then show ?case by simp
next
  case (Cons fr0 rest)
  obtain sz body where fr0: "fr0 = Frame sz body" by (cases fr0)
  show ?case
  proof (cases "sz = 0")
    case True
    with Cons.prems fr0 show ?thesis by (simp add: map_grows_refl)
  next
    case False
    let ?st0 = "if sz > max_message_size st then st\<lparr>max_message_size := sz\<rparr> else st"
    from Cons.prems fr0 False obtain r st1 where
      body: "body = Some r" and
      r: "dump_record ?st0 r = (True, st1)" and
      rest: "dump_frames st1 rest = (True, st')"
      by (auto simp: Let_def split: option.splits prod.splits bool.splits if_splits)
    have s0: "files ?st0 = files st" "max_symbol_id_map ?st0 = max_symbol_id_map st" by simp_all
    from dump_record_inv [OF r] s0 have
      a1: "map_grows (max_symbol_id_map st) (max_symbol_id_map st1)" and
      a2: "\<forall>e\<in>set (referenced [r]). recorded (max_symbol_id_map st1) e" and
      a3: "files st1 = files st @ map symbol_count (file_records [r])" and
      a4: "map (\<lambda>x. unat (file_ident x)) (file_records [r]) = [length (files st)..<length (files st1)]"
      by simp_all
    from Cons.IH [OF rest] have
      b1: "map_grows (max_symbol_id_map st1) (max_symbol_id_map st')" and
      b2: "\<forall>e\<in>set (referenced (records_read rest)). recorded (max_symbol_id_map st') e" and
      b3: "files st' = files st1 @ map symbol_count (file_records (records_read rest))" and
      b4: "map (\<lambda>x. unat (file_ident x)) (file_records (records_read rest)) =
             [length (files st1)..<length (files st')]"
      by simp_all
    have rr: "records_read (fr0 # rest) = r # records_read rest"
      using fr0 False body by simp
    have e2: "referenced (records_read (fr0 # rest)) =
                referenced [r] @ referenced (records_read rest)"
      unfolding rr by (rule referenced_Cons)
    have e3: "file_records (records_read (fr0 # rest)) =
                file_records [r] @ file_records (records_read rest)"
      unfolding rr by (rule file_records_Cons)
    have c1: "map_grows (max_symbol_id_map st) (max_symbol_id_map st')"
      using a1 b1 by (rule map_grows_trans)
    have c2: "\<forall>e\<in>set (referenced (records_read (fr0 # rest))). recorded (max_symbol_id_map st') e"
      using a2 b2 b1 by (auto simp: e2 intro: recorded_mono)
    have c3: "files st' = files st @ map symbol_count (file_records (records_read (fr0 # rest)))"
      using a3 b3 by (simp add: e3)
    have le: "length (files st) \<le> length (files st1)" "length (files st1) \<le> length (files st')"
      using a3 b3 by simp_all
    have "[length (files st)..<length (files st')] =
          [length (files st)..<length (files st1)] @ [length (files st1)..<length (files st')]"
      using le by (metis le_Suc_ex upt_add_eq_append)
    then have c4: "map (\<lambda>x. unat (file_ident x)) (file_records (records_read (fr0 # rest))) =
        [length (files st)..<length (files st')]"
      using a4 b4 by (simp add: e3)
    from c1 c2 c3 c4 show ?thesis by blast
  qed
qed

lemma check_max_symbol_ids_iff:
  "check_max_symbol_ids fs m = (\<forall>(k, v)\<in>set m. unat k < length fs \<and> v < fs ! unat k)"
  by (induction m) (auto simp: not_le split: if_splits)

lemma DumpProtobufReport_accepted:
  assumes "fst (DumpProtobufReport n fp (Some f))"
  shows "\<exists>st0. files st0 = [] \<and> max_symbol_id_map st0 = [] \<and>
           dump_frames st0 (frames f) = (True, snd (DumpProtobufReport n fp (Some f))) \<and>
           check_max_symbol_ids (files (snd (DumpProtobufReport n fp (Some f))))
             (max_symbol_id_map (snd (DumpProtobufReport n fp (Some f))))"
proof -
  let ?st = "\<lparr>out = FprintIndented (FprintIndented fp 0 (''magic: '' @ magic f @ ''\<newline>'')) 0
                      (''version: '' @ fmt_u PROT_FILE_VERSION @ ''\<newline>''),
              max_symbol_id_map = [], files = [], max_message_size = 64 * 2 ^ 20,
              static_sample_count = n\<rparr>"
  from assms have "dump_frames ?st (frames f) = (True, snd (DumpProtobufReport n fp (Some f))) \<and>
           check_max_symbol_ids (files (snd (DumpProtobufReport n fp (Some f))))
             (max_symbol_id_map (snd (DumpProtobufReport n fp (Some f))))"
    by (auto simp: DumpProtobufReport_def Let_def split: if_splits option.splits prod.splits bool.splits)
  then show ?thesis by (intro exI [of _ ?st]) simp
qed

text \<open>
  The file id of an entry whose symbol id is -1 has no influence on anything but the text.
\<close>

lemma dump_callchain_ok:
  "fst (dump_callchain st es) = (\<forall>e\<in>set es. \<not> symbol_id e <s - 1)"
  by (induction es arbitrary: st) (auto simp: Let_def)

lemma dump_callchain_retarget:
  "agree st st' \<Longrightarrow>
     fst (dump_callchain st' (map (retarget_entry g) es)) = fst (dump_callchain st es) \<and>
     agree (snd (dump_callchain st es)) (snd (dump_callchain st' (map (retarget_entry g) es)))"
proof (induction es arbitrary: st st')
  case Nil
  then show ?case by simp
next
  case (Cons cc rest)
  show ?case
  proof (cases "symbol_id cc <s - 1")
    case True
    then have "symbol_id cc \<noteq> - 1" by auto
    with True Cons.prems show ?thesis
      by (simp add: Let_def retarget_entry_def agree_def)
  next
    case False
    let ?m = "max_symbol_id_map st"
    let ?s = "\<lambda>fp. (if symbol_id cc \<noteq> - 1
        then st\<lparr>out := fp, max_symbol_id_map :=
               map_assign ?m (file_id cc) (std_max (map_at ?m (file_id cc)) (symbol_id cc))\<rparr>
        else st\<lparr>out := fp\<rparr>)"
    let ?s' = "\<lambda>fp. (if symbol_id cc \<noteq> - 1
        then st'\<lparr>out := fp, max_symbol_id_map :=
               map_assign ?m (file_id cc) (std_max (map_at ?m (file_id cc)) (symbol_id cc))\<rparr>
        else st'\<lparr>out := fp\<rparr>)"
    have m: "max_symbol_id_map st' = ?m" using Cons.prems by (simp add: agree_def)
    have ag: "agree (?s fp) (?s' fp')" for fp fp'
      using Cons.prems by (simp add: agree_def)
    define fp where "fp = out (snd (dump_callchain st [cc]))"
    define fp' where "fp' = out (snd (dump_callchain st' [retarget_entry g cc]))"
    have l: "dump_callchain st (cc # rest) = dump_callchain (?s fp) rest"
      using False by (simp add: fp_def Let_def)
    have r: "dump_callchain st' (map (retarget_entry g) (cc # rest)) =
        dump_callchain (?s' fp') (map (retarget_entry g) rest)"
      using False m
      by (cases "symbol_id cc = - 1") (simp_all add: fp'_def Let_def retarget_entry_def)
    show ?thesis unfolding l r by (rule Cons.IH [OF ag])
  qed
qed

lemma dump_record_retarget:
  assumes "agree st st'"
  shows "fst (dump_record st' (retarget_record g r)) = fst (dump_record st r) \<and>
         agree (snd (dump_record st r)) (snd (dump_record st' (retarget_record g r)))"
proof (cases r)
  case (has_sample sample)
  let ?t = "\<lambda>s fp. s\<lparr>static_sample_count := static_sample_count s + 1, out := fp\<rparr>"
  have ag: "agree (?t st fp) (?t st' fp')" for fp fp'
    using assms by (simp add: agree_def)
  define fp where "fp = out (snd (dump_record st (has_sample (sample\<lparr>callchain := []\<rparr>))))"
  define fp' where "fp' = out (snd (dump_record st' (has_sample (sample\<lparr>callchain := []\<rparr>))))"
  have l: "dump_record st r = dump_callchain (?t st fp) (callchain sample)"
    using has_sample by (simp add: fp_def Let_def)
  have r: "dump_record st' (retarget_record g r) =
      dump_callchain (?t st' fp') (map (retarget_entry g) (callchain sample))"
    using has_sample by (simp add: fp'_def Let_def)
  show ?thesis unfolding l r by (rule dump_callchain_retarget [OF ag])
qed (use assms in \<open>auto simp: Let_def agree_def\<close>)

lemma dump_frames_retarget:
  "agree st st' \<Longrightarrow>
     fst (dump_frames st' (map (retarget_frame g) fr)) = fst (dump_frames st fr) \<and>
     agree (snd (dump_frames st fr)) (snd (dump_frames st' (map (retarget_frame g) fr)))"
proof (induction fr arbitrary: st st')
  case Nil
  then show ?case by simp
next
  case (Cons fr0 rest)
  obtain sz body where fr0: "fr0 = Frame sz body" by (cases fr0)
  let ?u = "\<lambda>s. if sz > max_message_size s then s\<lparr>max_message_size := sz\<rparr> else s"
  have ag: "agree (?u st) (?u st')" using Cons.prems by (simp add: agree_def)
  show ?case
  proof (cases "sz = 0")
    case True
    with fr0 Cons.prems show ?thesis by simp
  next
    case False
    show ?thesis
    proof (cases body)
      case None
      with fr0 False ag show ?thesis by (simp add: Let_def)
    next
      case (Some r)
      obtain b st1 where d: "dump_record (?u st) r = (b, st1)" by (cases "dump_record (?u st) r")
      obtain b' st1' where d': "dump_record (?u st') (retarget_record g r) = (b', st1')"
        by (cases "dump_record (?u st') (retarget_record g r)")
      from dump_record_retarget [OF ag, of g r] d d' have bb: "b' = b" and ag1: "agree st1 st1'"
        by simp_all
      show ?thesis
      proof (cases b)
        case True
        with fr0 False Some d d' bb show ?thesis
          using Cons.IH [OF ag1] by (simp add: Let_def)
      next
        case False
        with fr0 \<open>sz \<noteq> 0\<close> Some d d' bb ag1 show ?thesis by (simp add: Let_def)
      qed
    qed
  qed
qed

lemma DumpProtobufReport_retarget:
  "fst (DumpProtobufReport n fp (Some (f\<lparr>frames := map (retarget_frame g) (frames f)\<rparr>))) =
     fst (DumpProtobufReport n fp (Some f)) \<and>
   agree (snd (DumpProtobufReport n fp (Some f)))
     (snd (DumpProtobufReport n fp (Some (f\<lparr>frames := map (retarget_frame g) (frames f)\<rparr>))))"
proof -
  let ?st = "\<lparr>out = FprintIndented (FprintIndented fp 0 (''magic: '' @ magic f @ ''\<newline>'')) 0
                      (''version: '' @ fmt_u PROT_FILE_VERSION @ ''\<newline>''),
              max_symbol_id_map = [], files = [], max_message_size = 64 * 2 ^ 20,
              static_sample_count = n\<rparr>"
  have ag: "agree ?st ?st" by (simp add: agree_def)
  obtain b st1 where d: "dump_frames ?st (frames f) = (b, st1)"
    by (cases "dump_frames ?st (frames f)")
  obtain b' st1' where d': "dump_frames ?st (map (retarget_frame g) (frames f)) = (b', st1')"
    by (cases "dump_frames ?st (map (retarget_frame g) (frames f))")
  from dump_frames_retarget [OF ag, of g "frames f"] d d' have bb: "b' = b" and ag1: "agree st1 st1'"
    by simp_all
  from ag1 have eq: "files st1' = files st1" "max_symbol_id_map st1' = max_symbol_id_map st1"
    by (simp_all add: agree_def)
  show ?thesis
    using d d' bb ag1 eq
    by (cases b) (auto simp: DumpProtobufReport_def Let_def agree_def split: option.splits)
qed

text \<open>
  C2. A file record is accepted by the dump exactly when its id equals the number of file
  records accepted before it (the length of \<^verbatim>\<open>files\<close>). Hence, when
  \<^verbatim>\<open>DumpProtobufReport\<close> returns true, the ids of the file records read are 0, 1, 2, ...
  in the order of the records, and \<^verbatim>\<open>files\<close> holds their symbol counts in that order.
  Reports with a gap, a duplicate or a swapped pair of ids are rejected.
\<close>

theorem file_ids_are_sequential:
  "fst (dump_record st (has_file file)) = (unat (file_ident file) = length (files st)) \<and>
   (fst (DumpProtobufReport n fp (Some f)) \<longrightarrow>
      map (\<lambda>x. unat (file_ident x)) (file_records (records_read (frames f))) =
        [0..<length (file_records (records_read (frames f)))] \<and>
      files (snd (DumpProtobufReport n fp (Some f))) =
        map symbol_count (file_records (records_read (frames f)))) \<and>
   \<not> fst (DumpProtobufReport 0 [] (Some (report_of
          [file_frame 0 [''read''], file_frame 2 [''write''], end_frame]))) \<and>
   \<not> fst (DumpProtobufReport 0 [] (Some (report_of
          [file_frame 0 [''read''], file_frame 0 [''write''], end_frame]))) \<and>
   \<not> fst (DumpProtobufReport 0 [] (Some (report_of
          [file_frame 1 [''read''], file_frame 0 [''write''], end_frame]))) \<and>
   fst (DumpProtobufReport 0 [] (Some (report_of
          [file_frame 0 [''read''], file_frame 1 [''write''], end_frame])))"
proof (intro conjI impI)
  show "fst (dump_record st (has_file file)) = (unat (file_ident file) = length (files st))"
    by (simp add: Let_def)
next
  assume a: "fst (DumpProtobufReport n fp (Some f))"
  from DumpProtobufReport_accepted [OF a] obtain st0 where
    s0: "files st0 = []" and
    d: "dump_frames st0 (frames f) = (True, snd (DumpProtobufReport n fp (Some f)))"
    by blast
  from dump_frames_inv [OF d] s0 have
    fs: "files (snd (DumpProtobufReport n fp (Some f))) =
           map symbol_count (file_records (records_read (frames f)))" and
    ids: "map (\<lambda>x. unat (file_ident x)) (file_records (records_read (frames f))) =
           [0..<length (files (snd (DumpProtobufReport n fp (Some f))))]"
    by simp_all
  show "files (snd (DumpProtobufReport n fp (Some f))) =
      map symbol_count (file_records (records_read (frames f)))" by (rule fs)
  show "map (\<lambda>x. unat (file_ident x)) (file_records (records_read (frames f))) =
      [0..<length (file_records (records_read (frames f)))]"
    using ids by (simp add: fs)
next
  show "\<not> fst (DumpProtobufReport 0 [] (Some (report_of
          [file_frame 0 [''read''], file_frame 2 [''write''], end_frame])))" by code_simp
next
  show "\<not> fst (DumpProtobufReport 0 [] (Some (report_of
          [file_frame 0 [''read''], file_frame 0 [''write''], end_frame])))" by code_simp
next
  show "\<not> fst (DumpProtobufReport 0 [] (Some (report_of
          [file_frame 1 [''read''], file_frame 0 [''write''], end_frame])))" by code_simp
next
  show "fst (DumpProtobufReport 0 [] (Some (report_of
          [file_frame 0 [''read''], file_frame 1 [''write''], end_frame])))" by code_simp
qed

text \<open>An accepted report with two file records around a sample.\<close>

theorem file_ids_are_sequential_witness:
  "fst (DumpProtobufReport 0 [] (Some (report_of
          [file_frame 0 [''read''], sample_frame [chain_entry 1 0], file_frame 1 [''write''],
           end_frame]))) \<and>
   map (\<lambda>x. unat (file_ident x)) (file_records (records_read (frames (report_of
          [file_frame 0 [''read''], sample_frame [chain_entry 1 0], file_frame 1 [''write''],
           end_frame])))) = [0, 1]"
proof -
  let ?f = "report_of [file_frame 0 [''read''], sample_frame [chain_entry 1 0],
                       file_frame 1 [''write''], end_frame]"
  have a: "fst (DumpProtobufReport 0 [] (Some ?f))" by code_simp
  have l: "[0..<length (file_records (records_read (frames ?f)))] = [0, 1]" by code_simp
  from file_ids_are_sequential [of _ _ 0 "[]" ?f] a
  have "map (\<lambda>x. unat (file_ident x)) (file_records (records_read (frames ?f))) =
        [0..<length (file_records (records_read (frames ?f)))]" by blast
  with a l show ?thesis by simp
qed

text \<open>
  C3. When \<^verbatim>\<open>DumpProtobufReport\<close> returns true, every pair of the map of maximal symbol
  ids has a file id below the number of file records read and a symbol id below the symbol
  count of that file; hence every call chain entry read whose symbol id is not -1 has a
  file id among the file records and a symbol id from 0 to below that file's symbol count.
  A report that refers to a symbol id equal to the symbol count of its file is rejected. The
  check is made after the loop: a sample record alone fails only on a symbol id below -1,
  a sample may precede the file record it refers to, and a report with a violation is
  rejected after the text of all its records has been printed.
\<close>

theorem symbol_ids_checked_after_pass:
  "(fst (DumpProtobufReport n fp (Some f)) \<longrightarrow>
      (\<forall>(k, v)\<in>set (max_symbol_id_map (snd (DumpProtobufReport n fp (Some f)))).
          unat k < length (files (snd (DumpProtobufReport n fp (Some f)))) \<and>
          v < files (snd (DumpProtobufReport n fp (Some f))) ! unat k) \<and>
      files (snd (DumpProtobufReport n fp (Some f))) =
        map symbol_count (file_records (records_read (frames f))) \<and>
      (\<forall>e\<in>set (referenced (records_read (frames f))). symbol_id e \<noteq> - 1 \<longrightarrow>
          unat (file_id e) < length (file_records (records_read (frames f))) \<and>
          0 \<le>s symbol_id e \<and>
          symbol_id e < symbol_count (file_records (records_read (frames f)) ! unat (file_id e)))) \<and>
   ((\<exists>e\<in>set (referenced (records_read (frames f))). symbol_id e \<noteq> - 1 \<and>
        unat (file_id e) < length (file_records (records_read (frames f))) \<and>
        symbol_id e = symbol_count (file_records (records_read (frames f)) ! unat (file_id e))) \<longrightarrow>
      \<not> fst (DumpProtobufReport n fp (Some f))) \<and>
   fst (dump_record st (has_sample sample)) =
     (\<forall>e\<in>set (callchain sample). \<not> symbol_id e <s - 1) \<and>
   fst (DumpProtobufReport 0 [] (Some (report_of
          [sample_frame [chain_entry 0 0], file_frame 0 [''read''], end_frame]))) \<and>
   \<not> fst (DumpProtobufReport 0 [] (Some (report_of
          [sample_frame [chain_entry 0 1], file_frame 0 [''read''], end_frame]))) \<and>
   out (snd (DumpProtobufReport 0 [] (Some (report_of
          [sample_frame [chain_entry 0 1], file_frame 0 [''read''], end_frame])))) =
     [(0, ''magic: SIMPLEPERF\<newline>''), (0, ''version: 1\<newline>''),
      (0, ''sample 1:\<newline>''), (1, ''event_type_id: 0\<newline>''), (1, ''time: 5\<newline>''),
      (1, ''event_count: 1\<newline>''), (1, ''thread_id: 7\<newline>''),
      (1, ''callchain:\<newline>''), (2, ''vaddr_in_file: 31\<newline>''),
      (2, ''file_id: 0\<newline>''), (2, ''symbol_id: 1\<newline>''), (0, ''file:\<newline>''),
      (1, ''id: 0\<newline>''), (1, ''path: /system/lib64/libc.so\<newline>''),
      (1, ''symbol: read\<newline>''), (1, ''mangled_symbol: read\<newline>'')] \<and>
   \<not> fst (DumpProtobufReport 0 [] (Some (report_of
          [sample_frame [chain_entry 1 0], file_frame 0 [''read''], end_frame])))"
proof -
  let ?st = "snd (DumpProtobufReport n fp (Some f))"
  let ?fs = "file_records (records_read (frames f))"
  have main: "(\<forall>(k, v)\<in>set (max_symbol_id_map ?st).
          unat k < length (files ?st) \<and> v < files ?st ! unat k) \<and>
      files ?st = map symbol_count ?fs \<and>
      (\<forall>e\<in>set (referenced (records_read (frames f))). symbol_id e \<noteq> - 1 \<longrightarrow>
          unat (file_id e) < length ?fs \<and> 0 \<le>s symbol_id e \<and>
          symbol_id e < symbol_count (?fs ! unat (file_id e)))"
    if a: "fst (DumpProtobufReport n fp (Some f))"
  proof -
    from DumpProtobufReport_accepted [OF a] obtain st0 where
      s0: "files st0 = []" and
      d: "dump_frames st0 (frames f) = (True, ?st)" and
      c: "check_max_symbol_ids (files ?st) (max_symbol_id_map ?st)"
      by blast
    from dump_frames_inv [OF d] s0 have
      fs: "files ?st = map symbol_count ?fs" and
      rec: "\<forall>e\<in>set (referenced (records_read (frames f))). recorded (max_symbol_id_map ?st) e"
      by simp_all
    from c have chk: "\<forall>(k, v)\<in>set (max_symbol_id_map ?st).
        unat k < length (files ?st) \<and> v < files ?st ! unat k"
      by (simp add: check_max_symbol_ids_iff)
    have "unat (file_id e) < length ?fs \<and> 0 \<le>s symbol_id e \<and>
          symbol_id e < symbol_count (?fs ! unat (file_id e))"
      if e: "e \<in> set (referenced (records_read (frames f)))" and ne: "symbol_id e \<noteq> - 1" for e
    proof -
      from rec e ne obtain v where
        v: "map_of (max_symbol_id_map ?st) (file_id e) = Some v" and
        b: "0 \<le>s symbol_id e" "symbol_id e \<le>s v"
        by (auto simp: recorded_def split: option.splits)
      from v have "(file_id e, v) \<in> set (max_symbol_id_map ?st)" by (rule map_of_SomeD)
      with chk have k: "unat (file_id e) < length (files ?st)"
        and lt: "v < files ?st ! unat (file_id e)" by auto
      from b have "symbol_id e \<le> v" by (rule sle_imp_le)
      with lt have "symbol_id e < files ?st ! unat (file_id e)" by simp
      with k b show ?thesis by (simp add: fs)
    qed
    with chk fs show ?thesis by blast
  qed
  have rej: "\<not> fst (DumpProtobufReport n fp (Some f))"
    if "\<exists>e\<in>set (referenced (records_read (frames f))). symbol_id e \<noteq> - 1 \<and>
        unat (file_id e) < length ?fs \<and> symbol_id e = symbol_count (?fs ! unat (file_id e))"
    using that main by force
  have smp: "fst (dump_record st (has_sample sample)) =
     (\<forall>e\<in>set (callchain sample). \<not> symbol_id e <s - 1)"
    by (simp add: Let_def dump_callchain_ok)
  have e1: "fst (DumpProtobufReport 0 [] (Some (report_of
          [sample_frame [chain_entry 0 0], file_frame 0 [''read''], end_frame])))" by code_simp
  have e2: "\<not> fst (DumpProtobufReport 0 [] (Some (report_of
          [sample_frame [chain_entry 0 1], file_frame 0 [''read''], end_frame])))" by code_simp
  have e3: "out (snd (DumpProtobufReport 0 [] (Some (report_of
          [sample_frame [chain_entry 0 1], file_frame 0 [''read''], end_frame])))) =
     [(0, ''magic: SIMPLEPERF\<newline>''), (0, ''version: 1\<newline>''),
      (0, ''sample 1:\<newline>''), (1, ''event_type_id: 0\<newline>''), (1, ''time: 5\<newline>''),
      (1, ''event_count: 1\<newline>''), (1, ''thread_id: 7\<newline>''),
      (1, ''callchain:\<newline>''), (2, ''vaddr_in_file: 31\<newline>''),
      (2, ''file_id: 0\<newline>''), (2, ''symbol_id: 1\<newline>''), (0, ''file:\<newline>''),
      (1, ''id: 0\<newline>''), (1, ''path: /system/lib64/libc.so\<newline>''),
      (1, ''symbol: read\<newline>''), (1, ''mangled_symbol: read\<newline>'')]" by code_simp
  have e4: "\<not> fst (DumpProtobufReport 0 [] (Some (report_of
          [sample_frame [chain_entry 1 0], file_frame 0 [''read''], end_frame])))" by code_simp
  from main rej smp e1 e2 e3 e4 show ?thesis by blast
qed

text \<open>An accepted report whose sample refers to the symbols 0 and 1 of a file with two.\<close>

theorem symbol_ids_checked_after_pass_witness:
  "fst (DumpProtobufReport 0 [] (Some (report_of
          [sample_frame [chain_entry 0 0, chain_entry 0 1], file_frame 0 [''read'', ''write''],
           end_frame]))) \<and>
   max_symbol_id_map (snd (DumpProtobufReport 0 [] (Some (report_of
          [sample_frame [chain_entry 0 0, chain_entry 0 1], file_frame 0 [''read'', ''write''],
           end_frame])))) = [(0, 1)] \<and>
   files (snd (DumpProtobufReport 0 [] (Some (report_of
          [sample_frame [chain_entry 0 0, chain_entry 0 1], file_frame 0 [''read'', ''write''],
           end_frame])))) =
     map symbol_count (file_records (records_read (frames (report_of
          [sample_frame [chain_entry 0 0, chain_entry 0 1], file_frame 0 [''read'', ''write''],
           end_frame])))) \<and>
   map symbol_count (file_records (records_read (frames (report_of
          [sample_frame [chain_entry 0 0, chain_entry 0 1], file_frame 0 [''read'', ''write''],
           end_frame])))) = [2]"
proof -
  let ?f = "report_of [sample_frame [chain_entry 0 0, chain_entry 0 1],
                       file_frame 0 [''read'', ''write''], end_frame]"
  have a: "fst (DumpProtobufReport 0 [] (Some ?f))" by code_simp
  have m: "max_symbol_id_map (snd (DumpProtobufReport 0 [] (Some ?f))) = [(0, 1)]" by code_simp
  have c: "map symbol_count (file_records (records_read (frames ?f))) = [2]" by code_simp
  from symbol_ids_checked_after_pass [of 0 "[]" ?f] a
  have "files (snd (DumpProtobufReport 0 [] (Some ?f))) =
          map symbol_count (file_records (records_read (frames ?f)))" by blast
  with a m c show ?thesis by simp
qed

text \<open>
  C10. A call chain entry with symbol id -1 leaves the map of maximal symbol ids as it is,
  so the final loop never sees its file id: replacing the file ids of such entries by any
  others changes neither the result of \<^verbatim>\<open>DumpProtobufReport\<close> nor the map. A report
  whose only reference to file id 7 has symbol id -1 is accepted with no file record at all,
  while the same file id with a symbol id that is not -1 makes the report fail.
\<close>

theorem unresolved_entries_escape_file_check:
  "(symbol_id cc = - 1 \<longrightarrow>
      fst (dump_callchain st [cc]) \<and>
      max_symbol_id_map (snd (dump_callchain st [cc])) = max_symbol_id_map st) \<and>
   fst (DumpProtobufReport n fp (Some (f\<lparr>frames := map (retarget_frame g) (frames f)\<rparr>))) =
     fst (DumpProtobufReport n fp (Some f)) \<and>
   max_symbol_id_map
       (snd (DumpProtobufReport n fp (Some (f\<lparr>frames := map (retarget_frame g) (frames f)\<rparr>)))) =
     max_symbol_id_map (snd (DumpProtobufReport n fp (Some f))) \<and>
   fst (DumpProtobufReport 0 [] (Some (report_of
          [sample_frame [chain_entry 7 (- 1)], end_frame]))) \<and>
   files (snd (DumpProtobufReport 0 [] (Some (report_of
          [sample_frame [chain_entry 7 (- 1)], end_frame])))) = [] \<and>
   fst (DumpProtobufReport 0 [] (Some (report_of
          [sample_frame [chain_entry 0 0, chain_entry 1 (- 1)], file_frame 0 [''read''],
           end_frame]))) \<and>
   \<not> fst (DumpProtobufReport 0 [] (Some (report_of
          [sample_frame [chain_entry 0 0, chain_entry 1 0], file_frame 0 [''read''],
           end_frame])))"
proof (intro conjI impI)
  assume "symbol_id cc = - 1"
  then show "fst (dump_callchain st [cc])"
    and "max_symbol_id_map (snd (dump_callchain st [cc])) = max_symbol_id_map st"
    by (simp_all add: Let_def)
next
  show "fst (DumpProtobufReport n fp (Some (f\<lparr>frames := map (retarget_frame g) (frames f)\<rparr>))) =
     fst (DumpProtobufReport n fp (Some f))"
    using DumpProtobufReport_retarget [of n fp g f] by simp
next
  show "max_symbol_id_map
       (snd (DumpProtobufReport n fp (Some (f\<lparr>frames := map (retarget_frame g) (frames f)\<rparr>)))) =
     max_symbol_id_map (snd (DumpProtobufReport n fp (Some f)))"
    using DumpProtobufReport_retarget [of n fp g f] by (simp add: agree_def)
next
  show "fst (DumpProtobufReport 0 [] (Some (report_of
          [sample_frame [chain_entry 7 (- 1)], end_frame])))" by code_simp
next
  show "files (snd (DumpProtobufReport 0 [] (Some (report_of
          [sample_frame [chain_entry 7 (- 1)], end_frame])))) = []" by code_simp
next
  show "fst (DumpProtobufReport 0 [] (Some (report_of
          [sample_frame [chain_entry 0 0, chain_entry 1 (- 1)], file_frame 0 [''read''],
           end_frame])))" by code_simp
next
  show "\<not> fst (DumpProtobufReport 0 [] (Some (report_of
          [sample_frame [chain_entry 0 0, chain_entry 1 0], file_frame 0 [''read''],
           end_frame])))" by code_simp
qed

text \<open>An entry for file id 9 with symbol id -1, dumped into an empty state.\<close>

theorem unresolved_entries_escape_file_check_witness:
  "symbol_id (chain_entry 9 (- 1)) = - 1 \<and>
   fst (dump_callchain \<lparr>out = [], max_symbol_id_map = [], files = [],
          max_message_size = 64 * 2 ^ 20, static_sample_count = 0\<rparr> [chain_entry 9 (- 1)]) \<and>
   max_symbol_id_map (snd (dump_callchain \<lparr>out = [], max_symbol_id_map = [], files = [],
          max_message_size = 64 * 2 ^ 20, static_sample_count = 0\<rparr> [chain_entry 9 (- 1)])) = []"
proof -
  let ?st = "\<lparr>out = [], max_symbol_id_map = [], files = [],
          max_message_size = 64 * 2 ^ 20, static_sample_count = 0\<rparr> :: dump_state"
  have h: "symbol_id (chain_entry 9 (- 1)) = - 1" by (simp add: chain_entry_def)
  from unresolved_entries_escape_file_check [of "chain_entry 9 (- 1)" ?st] h
  have "fst (dump_callchain ?st [chain_entry 9 (- 1)]) \<and>
        max_symbol_id_map (snd (dump_callchain ?st [chain_entry 9 (- 1)])) = max_symbol_id_map ?st"
    by blast
  with h show ?thesis by simp
qed

text \<open>
  C4. The counter behind the \<open>sample N:\<close> lines is a \<^verbatim>\<open>static\<close> local of
  \<^verbatim>\<open>DumpProtobufReport\<close>: it is not reset between two calls in one process. Dumping the
  same valid report a second time, with the counter where the first dump left it, prints
  \<open>sample 2:\<close> where the first dump printed \<open>sample 1:\<close>, so the two texts differ
  (here with two spaces for a level of indentation; the differing line has no indentation).
\<close>

theorem second_dump_numbers_samples_on:
  "fst (DumpProtobufReport 0 [] (Some one_sample_report)) \<and>
   static_sample_count (snd (DumpProtobufReport 0 [] (Some one_sample_report))) = 1 \<and>
   fst (DumpProtobufReport 1 [] (Some one_sample_report)) \<and>
   out (snd (DumpProtobufReport 0 [] (Some one_sample_report))) ! 2 = (0, ''sample 1:\<newline>'') \<and>
   out (snd (DumpProtobufReport 1 [] (Some one_sample_report))) ! 2 = (0, ''sample 2:\<newline>'') \<and>
   render ''  '' (out (snd (DumpProtobufReport 0 [] (Some one_sample_report)))) \<noteq>
   render ''  '' (out (snd (DumpProtobufReport
      (static_sample_count (snd (DumpProtobufReport 0 [] (Some one_sample_report)))) []
      (Some one_sample_report))))"
proof (intro conjI)
  show "fst (DumpProtobufReport 0 [] (Some one_sample_report))" by code_simp
  show "static_sample_count (snd (DumpProtobufReport 0 [] (Some one_sample_report))) = 1"
    by code_simp
  show "fst (DumpProtobufReport 1 [] (Some one_sample_report))" by code_simp
  show "out (snd (DumpProtobufReport 0 [] (Some one_sample_report))) ! 2 = (0, ''sample 1:\<newline>'')"
    by code_simp
  show "out (snd (DumpProtobufReport 1 [] (Some one_sample_report))) ! 2 = (0, ''sample 2:\<newline>'')"
    by code_simp
  show "render ''  '' (out (snd (DumpProtobufReport 0 [] (Some one_sample_report)))) \<noteq>
   render ''  '' (out (snd (DumpProtobufReport
      (static_sample_count (snd (DumpProtobufReport 0 [] (Some one_sample_report)))) []
      (Some one_sample_report))))"
    by code_simp
qed

text \<open>The third line of the two dumps.\<close>

theorem second_dump_numbers_samples_on_witness:
  "out (snd (DumpProtobufReport 0 [] (Some one_sample_report))) ! 2 \<noteq>
   out (snd (DumpProtobufReport 1 [] (Some one_sample_report))) ! 2"
  using second_dump_numbers_samples_on by simp

end
